theory Spec2Isabelle
  imports Complex_Main "HOL-Library.AList"
begin

section \<open>VM decommissioning: \<^verbatim>\<open>command/harness/destroy.go\<close>\<close>

text \<open>
  The development embeds the two functions of \<^verbatim>\<open>destroy.go\<close>, \<^verbatim>\<open>HandleDestroy\<close> (the
  retry driver) and \<^verbatim>\<open>handleDestroy\<close> (one destroy attempt), together with
  \<^verbatim>\<open>createBackoff\<close>. Everything the file calls but does not define (the stage owner
  store, the pool manager, the lite-engine client, the metrics vectors, the environment
  state registry, the backoff generator, \<^verbatim>\<open>time.Sleep\<close>) is a parameter: a function on an
  abstract world \<open>'w\<close>. Every call the source makes to such a collaborator is written into
  a call log, with its arguments and its results, at the place where the source makes it.
\<close>

subsection \<open>Values\<close>

text \<open>
  A \<^verbatim>\<open>float64\<close> is compared with the constants 50, 70 and 90 only. A finite value is
  represented by the real number it denotes (every finite \<^verbatim>\<open>float64\<close> is one; the reals
  that are no \<^verbatim>\<open>float64\<close> are harmless extra inputs); the two infinities and NaN are kept
  apart because Go's \<^verbatim>\<open>>=\<close> treats them specially.
\<close>

datatype float64 = Finite real | PosInf | NegInf | NaN

text \<open>Go's \<^verbatim>\<open>x >= c\<close> for a finite constant \<open>c\<close>: false on NaN.\<close>

fun f64_ge :: "float64 \<Rightarrow> real \<Rightarrow> bool" where
  "f64_ge (Finite x) c = (c \<le> x)"
| "f64_ge PosInf c = True"
| "f64_ge NegInf c = False"
| "f64_ge NaN c = False"

text \<open>
  Lines 104--122 of \<^verbatim>\<open>handleDestroy\<close>: three flags, all false at first, set by three
  nested tests. The source has the block twice, for the CPU and for the memory
  percentage; the result is the triple \<open>(ge50, ge70, ge90)\<close>.
\<close>

definition usage_flags :: "float64 \<Rightarrow> bool \<times> bool \<times> bool" where
  "usage_flags pct =
     (if f64_ge pct 50 then
        (if f64_ge pct 70 then
           (if f64_ge pct 90 then (True, True, True) else (True, True, False))
         else (True, False, False))
      else (False, False, False))"

subsection \<open>Errors\<close>

text \<open>
  Go's \<^verbatim>\<open>error\<close> values. \<open>Err\<close> is an error made by a collaborator, known by its
  message only. The other constructors are the errors the two functions build:
  \<^verbatim>\<open>ierrors.NewBadRequestError\<close>, \<^verbatim>\<open>errors.Wrap\<close> of \<^verbatim>\<open>github.com/pkg/errors\<close>, and
  \<^verbatim>\<open>fmt.Errorf\<close> without and with a \<^verbatim>\<open>%w\<close> operand. A nil \<^verbatim>\<open>error\<close> is \<open>None\<close> of
  \<open>error option\<close>.
\<close>

datatype error =
    Err string
  | BadRequestError string
  | Wrapped error string
  | Errorf string
  | Errorf_w string error

text \<open>
  Modelled from the spec: \<^verbatim>\<open>ierrors.NewBadRequestError\<close> (package \<^verbatim>\<open>internal/types\<close>, not
  among the sources) builds the \<^verbatim>\<open>BadRequest\<close> condition that carries the message.
\<close>

definition NewBadRequestError :: "string \<Rightarrow> error" where
  "NewBadRequestError msg = BadRequestError msg"

text \<open>
  \<^verbatim>\<open>errors.Wrap(err, message)\<close> of \<^verbatim>\<open>github.com/pkg/errors\<close>, as that library documents
  it: ``Wrap returns an error annotating err with a stack trace at the point Wrap is
  called, and the supplied message. If err is nil, Wrap returns nil.''
\<close>

definition errors_Wrap :: "error option \<Rightarrow> string \<Rightarrow> error option" where
  "errors_Wrap err message =
     (case err of None \<Rightarrow> None | Some e \<Rightarrow> Some (Wrapped e message))"

subsection \<open>Data\<close>

text \<open>
  \<^verbatim>\<open>context.Context\<close>: either \<^verbatim>\<open>context.Background()\<close> or a context made by the caller,
  with an identity and the fact whether it is already cancelled.
\<close>

datatype "context" = Background | CallerContext nat bool

text \<open>
  \<^verbatim>\<open>VMCleanupRequest\<close>; the type of its \<^verbatim>\<open>Context\<close> field is declared elsewhere and only
  handed to \<^verbatim>\<open>AddContext\<close>, so it is a type parameter.
\<close>

record 'c VMCleanupRequest =
  PoolID :: string
  StageRuntimeID :: string
  LogKey :: string
  Context :: 'c

text \<open>\<^verbatim>\<open>types.StageOwner\<close>, the entity of the stage owner store.\<close>

record StageOwner =
  StageID :: string
  PoolName :: string

text \<open>\<^verbatim>\<open>types.Instance\<close>, with the fields \<^verbatim>\<open>handleDestroy\<close> reads.\<close>

record Instance =
  ID :: string
  Name :: string
  OS :: string
  Arch :: string
  Provider :: string
  Port :: int

text \<open>
  \<^verbatim>\<open>config.EnvConfig\<close>, with the fields \<^verbatim>\<open>handleDestroy\<close> reads: \<^verbatim>\<open>env.Runner.Name\<close>,
  \<^verbatim>\<open>env.LiteEngine.EnableMock\<close> and \<^verbatim>\<open>env.LiteEngine.MockStepTimeoutSecs\<close>.
\<close>

record EnvConfig =
  Runner_Name :: string
  LiteEngine_EnableMock :: bool
  LiteEngine_MockStepTimeoutSecs :: int

text \<open>\<^verbatim>\<open>api.DestroyRequest\<close>, \<^verbatim>\<open>api.OSStats\<close> and \<^verbatim>\<open>api.DestroyResponse\<close> of the lite engine.\<close>

record DestroyRequest =
  LogDrone :: bool
  DestroyRequest_LogKey :: string
  LiteEnginePath :: string

record OSStats =
  TotalMemMB :: float64
  CPUCores :: int
  AvgMemUsagePct :: float64
  AvgCPUUsagePct :: float64
  MaxMemUsagePct :: float64
  MaxCPUUsagePct :: float64

record DestroyResponse =
  OSStats :: "OSStats option"

subsection \<open>Logging\<close>

text \<open>
  A \<^verbatim>\<open>logrus.Entry\<close> is its fields. \<^verbatim>\<open>WithField\<close> sets one key (logrus keeps the fields in
  a map, so a key set twice keeps the last value); \<^verbatim>\<open>WithError\<close> sets the key
  \<^verbatim>\<open>error\<close>.
\<close>

datatype log_value = LStr string | LInt int | LBool bool | LFloat float64 | LErr error

type_synonym Entry = "(string \<times> log_value) list"

datatype level = TraceLevel | ErrorLevel

definition WithField :: "string \<Rightarrow> log_value \<Rightarrow> Entry \<Rightarrow> Entry" where
  "WithField k v e = AList.update k v e"

definition WithError :: "error \<Rightarrow> Entry \<Rightarrow> Entry" where
  "WithError err e = WithField ''error'' (LErr err) e"

subsection \<open>The call log and the collaborators\<close>

text \<open>
  One event for each call that leaves \<^verbatim>\<open>destroy.go\<close>, with the arguments passed and the
  values returned. \<open>EvLog\<close> is \<^verbatim>\<open>Traceln\<close> or \<^verbatim>\<open>Errorln\<close> on an entry, \<open>EvLogf\<close> is
  \<^verbatim>\<open>Tracef\<close> with its format and arguments. \<open>EvGetClient\<close> records the error returned,
  \<open>None\<close> when a client was made.
\<close>

datatype event =
    EvFind "context" string "StageOwner option" "error option"
  | EvGetInstanceByStageID "context" string string "Instance option" "error option"
  | EvGetClient Instance string int bool int "error option"
  | EvClientDestroy "context" DestroyRequest "DestroyResponse option" "error option"
  | EvObserveCPU "string list" float64
  | EvObserveMemory "string list" float64
  | EvManagerDestroy "context" string string "error option"
  | EvEnvStateDelete string
  | EvStoreDelete "context" string "error option"
  | EvLog level string Entry
  | EvLogf level string "log_value list" Entry
  | EvNewExponentialBackOff
  | EvNextBackOff int
  | EvSleep int

record 'w state =
  world :: 'w
  trace :: "event list"

definition emit :: "event \<Rightarrow> 'w state \<Rightarrow> 'w state" where
  "emit ev st = st\<lparr>trace := trace st @ [ev]\<rparr>"

text \<open>
  The objects passed to \<^verbatim>\<open>HandleDestroy\<close>: \<^verbatim>\<open>store.StageOwnerStore\<close>, \<^verbatim>\<open>*drivers.Manager\<close>,
  \<^verbatim>\<open>*metric.Metrics\<close> (each vector with \<^verbatim>\<open>WithLabelValues(...).Observe(v)\<close> as one
  operation), and the lite-engine client returned by \<^verbatim>\<open>lehelper.GetClient\<close>. They are taken
  to be non-nil, as are \<^verbatim>\<open>r\<close> and \<^verbatim>\<open>env\<close>. A Go function that returns a pointer and an error
  returns a pair here, since \<^verbatim>\<open>handleDestroy\<close> tests both components;
  \<^verbatim>\<open>lehelper.GetClient\<close>, whose client is used untested when the error is nil, returns a sum.
\<close>

record 'w StageOwnerStore =
  Find :: "context \<Rightarrow> string \<Rightarrow> 'w \<Rightarrow> (StageOwner option \<times> error option) \<times> 'w"
  Delete :: "context \<Rightarrow> string \<Rightarrow> 'w \<Rightarrow> error option \<times> 'w"

record 'w Manager =
  GetInstanceByStageID ::
    "context \<Rightarrow> string \<Rightarrow> string \<Rightarrow> 'w \<Rightarrow> (Instance option \<times> error option) \<times> 'w"
  Destroy :: "context \<Rightarrow> string \<Rightarrow> string \<Rightarrow> 'w \<Rightarrow> error option \<times> 'w"

record 'w Metrics =
  CPUPercentile :: "string list \<Rightarrow> float64 \<Rightarrow> 'w \<Rightarrow> 'w"
  MemoryPercentile :: "string list \<Rightarrow> float64 \<Rightarrow> 'w \<Rightarrow> 'w"

record 'w Client =
  Client_Destroy ::
    "context \<Rightarrow> DestroyRequest \<Rightarrow> 'w \<Rightarrow> (DestroyResponse option \<times> error option) \<times> 'w"

text \<open>
  The package-level functions \<^verbatim>\<open>destroy.go\<close> calls and does not define:
  \<^verbatim>\<open>lehelper.GetClient\<close>, \<^verbatim>\<open>oshelp.GetLiteEngineLogsPath\<close>, \<^verbatim>\<open>AddContext\<close>,
  \<^verbatim>\<open>envState().Delete\<close>, \<^verbatim>\<open>backoff.NewExponentialBackOff\<close>, the assignment to the
  \<^verbatim>\<open>MaxElapsedTime\<close> field of a backoff, its method \<^verbatim>\<open>NextBackOff\<close> (which reads the clock
  and changes the backoff \<open>'b\<close>), and \<^verbatim>\<open>time.Sleep\<close>.
\<close>

record ('w, 'c, 'b) packages =
  lehelper_GetClient ::
    "Instance \<Rightarrow> string \<Rightarrow> int \<Rightarrow> bool \<Rightarrow> int \<Rightarrow> 'w \<Rightarrow> (error + 'w Client) \<times> 'w"
  oshelp_GetLiteEngineLogsPath :: "string \<Rightarrow> string"
  AddContext :: "Entry \<Rightarrow> 'c \<Rightarrow> Entry"
  envState_Delete :: "string \<Rightarrow> 'w \<Rightarrow> 'w"
  backoff_NewExponentialBackOff :: "'w \<Rightarrow> 'b \<times> 'w"
  set_MaxElapsedTime :: "int \<Rightarrow> 'b \<Rightarrow> 'b"
  NextBackOff :: "'b \<Rightarrow> 'w \<Rightarrow> (int \<times> 'b) \<times> 'w"
  time_Sleep :: "int \<Rightarrow> 'w \<Rightarrow> 'w"

text \<open>Each call: run the collaborator on the world, then write the event.\<close>

definition call_Find ::
  "'w StageOwnerStore \<Rightarrow> context \<Rightarrow> string \<Rightarrow> 'w state
     \<Rightarrow> (StageOwner option \<times> error option) \<times> 'w state" where
  "call_Find s ctx sid st =
     (case Find s ctx sid (world st) of
        ((entity, err), w) \<Rightarrow> ((entity, err), emit (EvFind ctx sid entity err) (st\<lparr>world := w\<rparr>)))"

definition call_Delete ::
  "'w StageOwnerStore \<Rightarrow> context \<Rightarrow> string \<Rightarrow> 'w state \<Rightarrow> error option \<times> 'w state" where
  "call_Delete s ctx sid st =
     (case Delete s ctx sid (world st) of
        (err, w) \<Rightarrow> (err, emit (EvStoreDelete ctx sid err) (st\<lparr>world := w\<rparr>)))"

definition call_GetInstanceByStageID ::
  "'w Manager \<Rightarrow> context \<Rightarrow> string \<Rightarrow> string \<Rightarrow> 'w state
     \<Rightarrow> (Instance option \<times> error option) \<times> 'w state" where
  "call_GetInstanceByStageID m ctx poolID sid st =
     (case GetInstanceByStageID m ctx poolID sid (world st) of
        ((inst, err), w) \<Rightarrow>
          ((inst, err), emit (EvGetInstanceByStageID ctx poolID sid inst err) (st\<lparr>world := w\<rparr>)))"

definition call_Destroy ::
  "'w Manager \<Rightarrow> context \<Rightarrow> string \<Rightarrow> string \<Rightarrow> 'w state \<Rightarrow> error option \<times> 'w state" where
  "call_Destroy m ctx poolID instID st =
     (case Destroy m ctx poolID instID (world st) of
        (err, w) \<Rightarrow> (err, emit (EvManagerDestroy ctx poolID instID err) (st\<lparr>world := w\<rparr>)))"

definition call_GetClient ::
  "('w, 'c, 'b) packages \<Rightarrow> Instance \<Rightarrow> string \<Rightarrow> int \<Rightarrow> bool \<Rightarrow> int \<Rightarrow> 'w state
     \<Rightarrow> (error + 'w Client) \<times> 'w state" where
  "call_GetClient pk inst runnerName port mock mockTimeout st =
     (case lehelper_GetClient pk inst runnerName port mock mockTimeout (world st) of
        (res, w) \<Rightarrow>
          (res, emit (EvGetClient inst runnerName port mock mockTimeout
                        (case res of Inl err \<Rightarrow> Some err | Inr client \<Rightarrow> None))
                  (st\<lparr>world := w\<rparr>)))"

definition call_Client_Destroy ::
  "'w Client \<Rightarrow> context \<Rightarrow> DestroyRequest \<Rightarrow> 'w state
     \<Rightarrow> (DestroyResponse option \<times> error option) \<times> 'w state" where
  "call_Client_Destroy client ctx req st =
     (case Client_Destroy client ctx req (world st) of
        ((resp, err), w) \<Rightarrow> ((resp, err), emit (EvClientDestroy ctx req resp err) (st\<lparr>world := w\<rparr>)))"

definition call_CPUPercentile :: "'w Metrics \<Rightarrow> string list \<Rightarrow> float64 \<Rightarrow> 'w state \<Rightarrow> 'w state" where
  "call_CPUPercentile metrics lvs v st =
     emit (EvObserveCPU lvs v) (st\<lparr>world := CPUPercentile metrics lvs v (world st)\<rparr>)"

definition call_MemoryPercentile :: "'w Metrics \<Rightarrow> string list \<Rightarrow> float64 \<Rightarrow> 'w state \<Rightarrow> 'w state" where
  "call_MemoryPercentile metrics lvs v st =
     emit (EvObserveMemory lvs v) (st\<lparr>world := MemoryPercentile metrics lvs v (world st)\<rparr>)"

definition call_envState_Delete :: "('w, 'c, 'b) packages \<Rightarrow> string \<Rightarrow> 'w state \<Rightarrow> 'w state" where
  "call_envState_Delete pk sid st =
     emit (EvEnvStateDelete sid) (st\<lparr>world := envState_Delete pk sid (world st)\<rparr>)"

definition call_NextBackOff ::
  "('w, 'c, 'b) packages \<Rightarrow> 'b \<Rightarrow> 'w state \<Rightarrow> (int \<times> 'b) \<times> 'w state" where
  "call_NextBackOff pk b st =
     (case NextBackOff pk b (world st) of
        ((duration, b'), w) \<Rightarrow> ((duration, b'), emit (EvNextBackOff duration) (st\<lparr>world := w\<rparr>)))"

definition call_Sleep :: "('w, 'c, 'b) packages \<Rightarrow> int \<Rightarrow> 'w state \<Rightarrow> 'w state" where
  "call_Sleep pk d st = emit (EvSleep d) (st\<lparr>world := time_Sleep pk d (world st)\<rparr>)"

definition Traceln :: "Entry \<Rightarrow> string \<Rightarrow> 'w state \<Rightarrow> 'w state" where
  "Traceln logr msg st = emit (EvLog TraceLevel msg logr) st"

definition Errorln :: "Entry \<Rightarrow> string \<Rightarrow> 'w state \<Rightarrow> 'w state" where
  "Errorln logr msg st = emit (EvLog ErrorLevel msg logr) st"

definition Tracef :: "Entry \<Rightarrow> string \<Rightarrow> log_value list \<Rightarrow> 'w state \<Rightarrow> 'w state" where
  "Tracef logr format args st = emit (EvLogf TraceLevel format args logr) st"

subsection \<open>One destroy attempt: \<^verbatim>\<open>handleDestroy\<close>\<close>

text \<open>
  Lines 91--132 of \<^verbatim>\<open>handleDestroy\<close>, the lite-engine cleanup and the execution
  statistics, as a block of their own: it reads the request, the environment, the pool
  name \<open>poolID\<close>, the instance found and the logger \<open>logr\<close>, and it returns nothing (no
  error leaves it). The caller's \<open>ctx\<close> does not occur in these lines; the client is called
  with \<^verbatim>\<open>context.Background()\<close>. The \<^verbatim>\<open>Tracef\<close> of line 129 keeps its format and its six
  arguments.
\<close>

definition liteEngineCleanup ::
  "('w, 'c, 'b) packages \<Rightarrow> 'c VMCleanupRequest \<Rightarrow> EnvConfig \<Rightarrow> 'w Metrics \<Rightarrow> string
     \<Rightarrow> Instance \<Rightarrow> Entry \<Rightarrow> 'w state \<Rightarrow> 'w state" where
  "liteEngineCleanup pk r env metrics poolID inst logr st4 =
     (case call_GetClient pk inst (Runner_Name env) (Port inst)
             (LiteEngine_EnableMock env) (LiteEngine_MockStepTimeoutSecs env) st4 of
        (res, st5) \<Rightarrow>
      case res of
        Inl err \<Rightarrow>
          Errorln (WithError err logr)
            ''could not create lite engine client for invoking cleanup'' st5
      | Inr client \<Rightarrow>
          (case call_Client_Destroy client Background
                  \<lparr>LogDrone = False, DestroyRequest_LogKey = LogKey r,
                   LiteEnginePath = oshelp_GetLiteEngineLogsPath pk (OS inst)\<rparr> st5 of
             ((resp, destroyErr), st5a) \<Rightarrow>
           let st5b =
             (if destroyErr \<noteq> None then
                Errorln (WithError (the destroyErr) logr)
                  ''could not invoke lite engine cleanup'' st5a
              else st5a)
           in
           if resp \<noteq> None \<and> OSStats (the resp) \<noteq> None then
             let stats = the (OSStats (the resp));
                 (cpuGe50, cpuGe70, cpuGe90) = usage_flags (MaxCPUUsagePct stats);
                 (memGe50, memGe70, memGe90) = usage_flags (MaxMemUsagePct stats);
                 st5c = call_CPUPercentile metrics
                          [poolID, OS inst, Arch inst, Provider inst]
                          (MaxCPUUsagePct stats) st5b;
                 st5d = call_MemoryPercentile metrics
                          [poolID, OS inst, Arch inst, Provider inst]
                          (MaxMemUsagePct stats) st5c
             in
             Tracef
               (WithField ''mem_ge90'' (LBool memGe90)
                 (WithField ''mem_ge70'' (LBool memGe70)
                   (WithField ''mem_ge50'' (LBool memGe50)
                     (WithField ''cpu_ge90'' (LBool cpuGe90)
                       (WithField ''cpu_ge70'' (LBool cpuGe70)
                         (WithField ''cpu_ge50'' (LBool cpuGe50) logr))))))
               (''execution stats: total_mem_mb: %f, cpu_cores: %d, ''
                @ ''avg_mem_usage_pct (%%): %.2f, avg_cpu_usage (%%): %.2f, ''
                @ ''max_mem_usage_pct (%%): %.2f, max_cpu_usage_pct (%%): %.2f'')
               [LFloat (TotalMemMB stats), LInt (CPUCores stats),
                LFloat (AvgMemUsagePct stats), LFloat (AvgCPUUsagePct stats),
                LFloat (MaxMemUsagePct stats), LFloat (MaxCPUUsagePct stats)]
               st5d
           else st5b))"

text \<open>
  Lines 60--148, with lines 91--132 in \<open>liteEngineCleanup\<close>. The result is the pair the
  Go function returns, the instance pointer and the error, with the state after the
  attempt. \<^verbatim>\<open>errors.Wrap\<close>, \<^verbatim>\<open>fmt.Sprintf\<close> with one \<^verbatim>\<open>%s\<close> and \<^verbatim>\<open>fmt.Errorf\<close> are
  written out.
\<close>

definition handleDestroy ::
  "('w, 'c, 'b) packages \<Rightarrow> context \<Rightarrow> 'c VMCleanupRequest \<Rightarrow> 'w StageOwnerStore \<Rightarrow> EnvConfig
     \<Rightarrow> 'w Manager \<Rightarrow> 'w Metrics \<Rightarrow> int \<Rightarrow> 'w state
     \<Rightarrow> (Instance option \<times> error option) \<times> 'w state" where
  "handleDestroy pk ctx r s env poolManager metrics retryCount st0 =
     (case call_Find s ctx (StageRuntimeID r) st0 of ((entity, err), st1) \<Rightarrow>
      if err \<noteq> None \<or> entity = None then
        ((None, errors_Wrap err
                  (''failed to find stage owner entity for stage: '' @ StageRuntimeID r)), st1)
      else
        let poolID = PoolName (the entity);
            logr = WithField ''retry_count'' (LInt retryCount)
                     (WithField ''api'' (LStr ''dlite:destroy'')
                       (WithField ''pool'' (LStr poolID)
                         (WithField ''stage_runtime_id'' (LStr (StageRuntimeID r)) [])));
            logr = AddContext pk logr (Context r);
            st2 = Traceln logr ''starting the destroy process'' st1
        in
        case call_GetInstanceByStageID poolManager ctx poolID (StageRuntimeID r) st2 of
          ((inst, err), st3) \<Rightarrow>
        if err \<noteq> None then
          ((None, Some (Errorf_w ''cannot get the instance by tag: '' (the err))), st3)
        else if inst = None then
          ((None, Some (Errorf (''instance with stage runtime ID '' @ StageRuntimeID r
                                 @ '' not found''))), st3)
        else
          let logr = WithField ''instance_name'' (LStr (Name (the inst)))
                       (WithField ''instance_id'' (LStr (ID (the inst))) logr);
              st4 = Traceln logr ''invoking lite engine cleanup'' st3;
              st6 = liteEngineCleanup pk r env metrics poolID (the inst) logr st4;
              st7 = Traceln logr
                      ''successfully invoked lite engine cleanup, destroying instance'' st6
          in
          case call_Destroy poolManager ctx poolID (ID (the inst)) st7 of (err, st8) \<Rightarrow>
          if err \<noteq> None then
            ((None, Some (Errorf_w ''cannot destroy the instance: '' (the err))), st8)
          else
            let st9 = Traceln logr ''destroyed instance'' st8;
                st10 = call_envState_Delete pk (StageRuntimeID r) st9
            in
            case call_Delete s ctx (StageRuntimeID r) st10 of (err, st11) \<Rightarrow>
            let st12 =
              (if err \<noteq> None then
                 Errorln (WithError (the err) logr) ''failed to delete stage owner entity'' st11
               else st11)
            in ((inst, None), st12))"

subsection \<open>The retry driver: \<^verbatim>\<open>createBackoff\<close> and \<^verbatim>\<open>HandleDestroy\<close>\<close>

text \<open>
  \<^verbatim>\<open>time.Duration\<close> counts nanoseconds; \<^verbatim>\<open>backoff.Stop\<close> is the duration \<open>-1\<close>. The
  durations are only compared and passed on, so they are integers.
\<close>

definition time_Minute :: int where
  "time_Minute = 60 * 1000000000"

definition destroyTimeout :: int where
  "destroyTimeout = 10 * time_Minute"

definition backoff_Stop :: int where
  "backoff_Stop = - 1"

text \<open>Lines 150--154.\<close>

definition createBackoff :: "('w, 'c, 'b) packages \<Rightarrow> int \<Rightarrow> 'w state \<Rightarrow> 'b \<times> 'w state" where
  "createBackoff pk maxElapsedTime st =
     (case backoff_NewExponentialBackOff pk (world st) of
        (b, w) \<Rightarrow>
          (set_MaxElapsedTime pk maxElapsedTime b,
           emit EvNewExponentialBackOff (st\<lparr>world := w\<rparr>)))"

text \<open>
  The body of the \<^verbatim>\<open>for\<close> loop, lines 42--56, on the loop variables \<open>cnt\<close> and \<open>b\<close>:
  \<open>Inl\<close> is a \<^verbatim>\<open>return\<close> with the value returned, \<open>Inr\<close> is \<^verbatim>\<open>continue\<close> with the
  variables of the next pass. The counter is an integer: it is only logged, and it would
  need more passes than a machine integer holds to wrap.
\<close>

definition loop_body ::
  "('w, 'c, 'b) packages \<Rightarrow> context \<Rightarrow> 'c VMCleanupRequest \<Rightarrow> 'w StageOwnerStore \<Rightarrow> EnvConfig
     \<Rightarrow> 'w Manager \<Rightarrow> 'w Metrics \<Rightarrow> int \<times> 'b \<times> 'w state
     \<Rightarrow> (error option \<times> 'w state) + (int \<times> 'b \<times> 'w state)" where
  "loop_body pk ctx r s env poolManager metrics v =
     (case v of (cnt, b, st) \<Rightarrow>
      case call_NextBackOff pk b st of ((duration, b'), st1) \<Rightarrow>
      case handleDestroy pk ctx r s env poolManager metrics cnt st1 of ((inst, err), st2) \<Rightarrow>
      if err \<noteq> None then
        let st3 = Errorln
                    (WithField ''stage_runtime_id'' (LStr (StageRuntimeID r))
                      (WithField ''retry_count'' (LInt cnt) (WithError (the err) [])))
                    ''could not destroy VM'' st2
        in
        if duration = backoff_Stop then Inl (err, st3)
        else Inr (cnt + 1, b', call_Sleep pk duration st3)
      else Inl (None, st2))"

text \<open>
  The loop itself. It has no bound of its own: it ends when an attempt succeeds or the
  backoff returns \<^verbatim>\<open>Stop\<close>, and \<open>None\<close> is a loop that never returns.
\<close>

partial_function (option) retry_loop ::
  "('w, 'c, 'b) packages \<Rightarrow> context \<Rightarrow> 'c VMCleanupRequest \<Rightarrow> 'w StageOwnerStore \<Rightarrow> EnvConfig
     \<Rightarrow> 'w Manager \<Rightarrow> 'w Metrics \<Rightarrow> int \<times> 'b \<times> 'w state
     \<Rightarrow> (error option \<times> 'w state) option" where
  "retry_loop pk ctx r s env poolManager metrics v =
     (case loop_body pk ctx r s env poolManager metrics v of
        Inl res \<Rightarrow> Some res
      | Inr v' \<Rightarrow> retry_loop pk ctx r s env poolManager metrics v')"

text \<open>Lines 34--58.\<close>

definition HandleDestroy ::
  "('w, 'c, 'b) packages \<Rightarrow> context \<Rightarrow> 'c VMCleanupRequest \<Rightarrow> 'w StageOwnerStore \<Rightarrow> EnvConfig
     \<Rightarrow> 'w Manager \<Rightarrow> 'w Metrics \<Rightarrow> 'w state \<Rightarrow> (error option \<times> 'w state) option" where
  "HandleDestroy pk ctx r s env poolManager metrics st =
     (if StageRuntimeID r = '''' then
        Some (Some (NewBadRequestError
                      ''mandatory field 'stage_runtime_id' in the request body is empty''), st)
      else
        case createBackoff pk destroyTimeout st of (b, st0) \<Rightarrow>
        retry_loop pk ctx r s env poolManager metrics (0, b, st0))"

subsection \<open>Reading the call log\<close>

text \<open>The events an operation has added to the log: those of \<open>st'\<close> after those of \<open>st\<close>.\<close>

definition new_events :: "'w state \<Rightarrow> 'w state \<Rightarrow> event list" where
  "new_events st st' = drop (length (trace st)) (trace st')"

fun is_ManagerDestroy :: "event \<Rightarrow> bool" where
  "is_ManagerDestroy (EvManagerDestroy c p i e) = True"
| "is_ManagerDestroy _ = False"

fun is_ObserveCPU :: "event \<Rightarrow> bool" where
  "is_ObserveCPU (EvObserveCPU lvs v) = True"
| "is_ObserveCPU _ = False"

fun is_ObserveMemory :: "event \<Rightarrow> bool" where
  "is_ObserveMemory (EvObserveMemory lvs v) = True"
| "is_ObserveMemory _ = False"

text \<open>Bookkeeping retirement: the registry deletion and the record deletion.\<close>

fun is_retirement :: "event \<Rightarrow> bool" where
  "is_retirement (EvEnvStateDelete sid) = True"
| "is_retirement (EvStoreDelete c sid e) = True"
| "is_retirement _ = False"

text \<open>The events lines 91--132 can write: client construction, client call, metrics, log.\<close>

fun is_cleanup_event :: "event \<Rightarrow> bool" where
  "is_cleanup_event (EvGetClient inst n p m t e) = True"
| "is_cleanup_event (EvClientDestroy c q rp e) = True"
| "is_cleanup_event (EvObserveCPU lvs v) = True"
| "is_cleanup_event (EvObserveMemory lvs v) = True"
| "is_cleanup_event (EvLog l m e) = True"
| "is_cleanup_event (EvLogf l m a e) = True"
| "is_cleanup_event _ = False"

text \<open>The context and the request a call of the client's \<^verbatim>\<open>Destroy\<close> was made with.\<close>

fun client_call :: "event \<Rightarrow> (context \<times> DestroyRequest) option" where
  "client_call (EvClientDestroy c q rp e) = Some (c, q)"
| "client_call _ = None"

text \<open>
  The loop variables after \<open>n\<close> passes that all ended in \<^verbatim>\<open>continue\<close>: \<open>None\<close> when one
  of them returned.
\<close>

primrec after_retries ::
  "('w, 'c, 'b) packages \<Rightarrow> context \<Rightarrow> 'c VMCleanupRequest \<Rightarrow> 'w StageOwnerStore \<Rightarrow> EnvConfig
     \<Rightarrow> 'w Manager \<Rightarrow> 'w Metrics \<Rightarrow> nat \<Rightarrow> int \<times> 'b \<times> 'w state
     \<Rightarrow> (int \<times> 'b \<times> 'w state) option" where
  "after_retries pk ctx r s env poolManager metrics 0 v = Some v"
| "after_retries pk ctx r s env poolManager metrics (Suc n) v =
     (case loop_body pk ctx r s env poolManager metrics v of
        Inl res \<Rightarrow> None
      | Inr v' \<Rightarrow> after_retries pk ctx r s env poolManager metrics n v')"

text \<open>
  Reading the log back against the collaborators. \<open>replay_event\<close> takes a world and the
  client in hand, applies the collaborator the event names to the arguments the event
  holds, and returns the world after the call, provided the collaborator returns what the
  event holds (\<open>None\<close> otherwise). A log line changes nothing. The three events of the
  retry loop are not events of an attempt and are not replayed.
\<close>

fun replay_event ::
  "('w, 'c, 'b) packages \<Rightarrow> 'w StageOwnerStore \<Rightarrow> 'w Manager \<Rightarrow> 'w Metrics \<Rightarrow> event
     \<Rightarrow> 'w \<times> 'w Client option \<Rightarrow> ('w \<times> 'w Client option) option" where
  "replay_event pk s m metrics (EvFind ctx sid entity err) (w, cl) =
     (case Find s ctx sid w of
        ((entity', err'), w') \<Rightarrow>
          if entity' = entity \<and> err' = err then Some (w', cl) else None)"
| "replay_event pk s m metrics (EvGetInstanceByStageID ctx poolID sid inst err) (w, cl) =
     (case GetInstanceByStageID m ctx poolID sid w of
        ((inst', err'), w') \<Rightarrow>
          if inst' = inst \<and> err' = err then Some (w', cl) else None)"
| "replay_event pk s m metrics (EvGetClient inst runnerName port mock mockTimeout err) (w, cl) =
     (case lehelper_GetClient pk inst runnerName port mock mockTimeout w of
        (Inl e, w') \<Rightarrow> if err = Some e then Some (w', None) else None
      | (Inr client, w') \<Rightarrow> if err = None then Some (w', Some client) else None)"
| "replay_event pk s m metrics (EvClientDestroy ctx req resp err) (w, cl) =
     (case cl of
        None \<Rightarrow> None
      | Some client \<Rightarrow>
          (case Client_Destroy client ctx req w of
             ((resp', err'), w') \<Rightarrow>
               if resp' = resp \<and> err' = err then Some (w', cl) else None))"
| "replay_event pk s m metrics (EvObserveCPU lvs v) (w, cl) =
     Some (CPUPercentile metrics lvs v w, cl)"
| "replay_event pk s m metrics (EvObserveMemory lvs v) (w, cl) =
     Some (MemoryPercentile metrics lvs v w, cl)"
| "replay_event pk s m metrics (EvManagerDestroy ctx poolID instID err) (w, cl) =
     (case Destroy m ctx poolID instID w of
        (err', w') \<Rightarrow> if err' = err then Some (w', cl) else None)"
| "replay_event pk s m metrics (EvEnvStateDelete sid) (w, cl) =
     Some (envState_Delete pk sid w, cl)"
| "replay_event pk s m metrics (EvStoreDelete ctx sid err) (w, cl) =
     (case Delete s ctx sid w of
        (err', w') \<Rightarrow> if err' = err then Some (w', cl) else None)"
| "replay_event pk s m metrics (EvLog l msg e) (w, cl) = Some (w, cl)"
| "replay_event pk s m metrics (EvLogf l format args e) (w, cl) = Some (w, cl)"
| "replay_event pk s m metrics EvNewExponentialBackOff (w, cl) = None"
| "replay_event pk s m metrics (EvNextBackOff d) (w, cl) = None"
| "replay_event pk s m metrics (EvSleep d) (w, cl) = None"

fun replay ::
  "('w, 'c, 'b) packages \<Rightarrow> 'w StageOwnerStore \<Rightarrow> 'w Manager \<Rightarrow> 'w Metrics \<Rightarrow> event list
     \<Rightarrow> 'w \<times> 'w Client option \<Rightarrow> ('w \<times> 'w Client option) option" where
  "replay pk s m metrics [] x = Some x"
| "replay pk s m metrics (ev # evs) x =
     (case replay_event pk s m metrics ev x of
        None \<Rightarrow> None
      | Some x' \<Rightarrow> replay pk s m metrics evs x')"

text \<open>
  The log between \<open>st\<close> and \<open>st'\<close> is a faithful record: it continues the log of \<open>st\<close>,
  and replayed from the world of \<open>st\<close> (with the client \<open>cl\<close> in hand) it returns what it
  holds and ends in the world of \<open>st'\<close> (with \<open>cl'\<close> in hand).
\<close>

definition faithful ::
  "('w, 'c, 'b) packages \<Rightarrow> 'w StageOwnerStore \<Rightarrow> 'w Manager \<Rightarrow> 'w Metrics
     \<Rightarrow> 'w state \<Rightarrow> 'w Client option \<Rightarrow> 'w state \<Rightarrow> 'w Client option \<Rightarrow> bool" where
  "faithful pk s m metrics st cl st' cl' \<longleftrightarrow>
     (\<exists>evs. trace st' = trace st @ evs
            \<and> replay pk s m metrics evs (world st, cl) = Some (world st', cl'))"

text \<open>
  The loop variables after \<open>n\<close> attempts in a row that each returned an error while the
  backoff returned a duration other than \<^verbatim>\<open>Stop\<close>, read off the attempts and the backoff
  themselves: after such an attempt comes the error line, the sleep for that duration, and
  the counter one higher. \<open>None\<close> when one of the \<open>n\<close> attempts succeeded or met \<^verbatim>\<open>Stop\<close>.
\<close>

primrec failed_attempts ::
  "('w, 'c, 'b) packages \<Rightarrow> context \<Rightarrow> 'c VMCleanupRequest \<Rightarrow> 'w StageOwnerStore \<Rightarrow> EnvConfig
     \<Rightarrow> 'w Manager \<Rightarrow> 'w Metrics \<Rightarrow> nat \<Rightarrow> int \<times> 'b \<times> 'w state
     \<Rightarrow> (int \<times> 'b \<times> 'w state) option" where
  "failed_attempts pk ctx r s env poolManager metrics 0 v = Some v"
| "failed_attempts pk ctx r s env poolManager metrics (Suc n) v =
     (case v of (cnt, b, st) \<Rightarrow>
      case call_NextBackOff pk b st of ((duration, b'), st1) \<Rightarrow>
      case handleDestroy pk ctx r s env poolManager metrics cnt st1 of ((inst, err), st2) \<Rightarrow>
      case err of
        None \<Rightarrow> None
      | Some e \<Rightarrow>
          if duration = backoff_Stop then None
          else failed_attempts pk ctx r s env poolManager metrics n
                 (cnt + 1, b',
                  call_Sleep pk duration
                    (Errorln
                      (WithField ''stage_runtime_id'' (LStr (StageRuntimeID r))
                        (WithField ''retry_count'' (LInt cnt) (WithError e [])))
                      ''could not destroy VM'' st2)))"

subsection \<open>Test doubles\<close>

text \<open>
  Collaborators with fixed answers, for running the functions on concrete inputs. The
  world is the number of \<^verbatim>\<open>time.Sleep\<close> calls so far, which is the number of the current
  attempt; the backoff is the number of \<^verbatim>\<open>NextBackOff\<close> calls so far and returns \<^verbatim>\<open>Stop\<close>
  from call number \<open>limit\<close> on, half a second before.
\<close>

definition stub_store ::
  "(nat \<Rightarrow> StageOwner option \<times> error option) \<Rightarrow> error option \<Rightarrow> nat StageOwnerStore" where
  "stub_store found deleted =
     \<lparr>Find = (\<lambda>ctx sid w. (found w, w)), Delete = (\<lambda>ctx sid w. (deleted, w))\<rparr>"

definition stub_manager ::
  "(Instance option \<times> error option) \<Rightarrow> (nat \<Rightarrow> error option) \<Rightarrow> nat Manager" where
  "stub_manager found destroyed =
     \<lparr>GetInstanceByStageID = (\<lambda>ctx poolID sid w. (found, w)),
      Destroy = (\<lambda>ctx poolID instID w. (destroyed w, w))\<rparr>"

definition stub_metrics :: "nat Metrics" where
  "stub_metrics = \<lparr>CPUPercentile = (\<lambda>lvs v w. w), MemoryPercentile = (\<lambda>lvs v w. w)\<rparr>"

definition stub_client :: "DestroyResponse option \<times> error option \<Rightarrow> nat Client" where
  "stub_client answer = \<lparr>Client_Destroy = (\<lambda>ctx req w. (answer, w))\<rparr>"

definition stub_packages :: "(error + nat Client) \<Rightarrow> nat \<Rightarrow> (nat, unit, nat) packages" where
  "stub_packages client limit =
     \<lparr>lehelper_GetClient = (\<lambda>inst runnerName port mock mockTimeout w. (client, w)),
      oshelp_GetLiteEngineLogsPath = (\<lambda>os. ''/var/log/lite-engine/'' @ os),
      AddContext = (\<lambda>logr c. logr),
      envState_Delete = (\<lambda>sid w. w),
      backoff_NewExponentialBackOff = (\<lambda>w. (0, w)),
      set_MaxElapsedTime = (\<lambda>d b. b),
      NextBackOff = (\<lambda>b w. ((if limit \<le> b then backoff_Stop else 500000000, Suc b), w)),
      time_Sleep = (\<lambda>d w. Suc w)\<rparr>"

definition stub_request :: "unit VMCleanupRequest" where
  "stub_request = \<lparr>PoolID = ''pool'', StageRuntimeID = ''stage-1'', LogKey = ''key'', Context = ()\<rparr>"

definition stub_env :: EnvConfig where
  "stub_env = \<lparr>Runner_Name = ''runner'', LiteEngine_EnableMock = False,
               LiteEngine_MockStepTimeoutSecs = 0\<rparr>"

definition stub_owner :: StageOwner where
  "stub_owner = \<lparr>StageID = ''stage-1'', PoolName = ''linux-pool''\<rparr>"

definition stub_instance :: Instance where
  "stub_instance = \<lparr>ID = ''i-0abc'', Name = ''vm-1'', OS = ''linux'', Arch = ''amd64'',
                    Provider = ''amazon'', Port = 9079\<rparr>"

definition stub_stats :: OSStats where
  "stub_stats = \<lparr>TotalMemMB = Finite 4096, CPUCores = 2, AvgMemUsagePct = Finite 40,
                 AvgCPUUsagePct = Finite 30, MaxMemUsagePct = Finite 60,
                 MaxCPUUsagePct = Finite 95\<rparr>"

definition stub_state :: "nat state" where
  "stub_state = \<lparr>world = 0, trace = []\<rparr>"

text \<open>The collaborators of an attempt in which every call succeeds.\<close>

definition stub_store_ok :: "nat StageOwnerStore" where
  "stub_store_ok = stub_store (\<lambda>w. (Some stub_owner, None)) None"

definition stub_manager_ok :: "nat Manager" where
  "stub_manager_ok = stub_manager (Some stub_instance, None) (\<lambda>w. None)"

text \<open>A pool manager whose \<^verbatim>\<open>Destroy\<close> returns an error; no client can be made.\<close>

definition run_destroy_error :: "(Instance option \<times> error option) \<times> nat state" where
  "run_destroy_error =
     handleDestroy (stub_packages (Inl (Err ''no route to host'')) 3)
       (CallerContext 1 False) stub_request stub_store_ok stub_env
       (stub_manager (Some stub_instance, None) (\<lambda>w. Some (Err ''cloud api down'')))
       stub_metrics 0 stub_state"

text \<open>A store whose \<^verbatim>\<open>Delete\<close> returns an error; no client can be made.\<close>

definition run_delete_error :: "(Instance option \<times> error option) \<times> nat state" where
  "run_delete_error =
     handleDestroy (stub_packages (Inl (Err ''no route to host'')) 3)
       (CallerContext 1 False) stub_request
       (stub_store (\<lambda>w. (Some stub_owner, None)) (Some (Err ''database is locked'')))
       stub_env stub_manager_ok stub_metrics 0 stub_state"

text \<open>
  A store that finds no owner, with a different error in each attempt, and a backoff that
  stops at its third call.
\<close>

definition stub_store_never :: "nat StageOwnerStore" where
  "stub_store_never =
     stub_store
       (\<lambda>w. (None, Some (Err (if w = 0 then ''first'' else if w = 1 then ''second''
                               else ''third''))))
       None"

text \<open>A store that finds the owner from the second attempt on.\<close>

definition stub_store_late :: "nat StageOwnerStore" where
  "stub_store_late =
     stub_store (\<lambda>w. if w = 0 then (None, Some (Err ''not yet'')) else (Some stub_owner, None))
       None"

text \<open>A store that finds neither an owner nor an error.\<close>

definition stub_store_nil :: "nat StageOwnerStore" where
  "stub_store_nil = stub_store (\<lambda>w. (None, None)) None"

text \<open>
  Collaborators that keep a record: the world is the list of the calls the collaborators
  have received, each written down by the collaborator itself, with the arguments it was
  handed and what it answered.
\<close>

definition rec_store ::
  "StageOwner option \<times> error option \<Rightarrow> error option \<Rightarrow> event list StageOwnerStore" where
  "rec_store found deleted =
     \<lparr>Find = (\<lambda>ctx sid w. (found, w @ [EvFind ctx sid (fst found) (snd found)])),
      Delete = (\<lambda>ctx sid w. (deleted, w @ [EvStoreDelete ctx sid deleted]))\<rparr>"

definition rec_manager ::
  "Instance option \<times> error option \<Rightarrow> error option \<Rightarrow> event list Manager" where
  "rec_manager found destroyed =
     \<lparr>GetInstanceByStageID =
        (\<lambda>ctx poolID sid w.
           (found, w @ [EvGetInstanceByStageID ctx poolID sid (fst found) (snd found)])),
      Destroy =
        (\<lambda>ctx poolID instID w. (destroyed, w @ [EvManagerDestroy ctx poolID instID destroyed]))\<rparr>"

definition rec_metrics :: "event list Metrics" where
  "rec_metrics =
     \<lparr>CPUPercentile = (\<lambda>lvs v w. w @ [EvObserveCPU lvs v]),
      MemoryPercentile = (\<lambda>lvs v w. w @ [EvObserveMemory lvs v])\<rparr>"

definition rec_client :: "DestroyResponse option \<times> error option \<Rightarrow> event list Client" where
  "rec_client answer =
     \<lparr>Client_Destroy =
        (\<lambda>ctx req w. (answer, w @ [EvClientDestroy ctx req (fst answer) (snd answer)]))\<rparr>"

definition rec_packages ::
  "(error + event list Client) \<Rightarrow> (event list, unit, nat) packages" where
  "rec_packages client =
     \<lparr>lehelper_GetClient =
        (\<lambda>inst runnerName port mock mockTimeout w.
           (client,
            w @ [EvGetClient inst runnerName port mock mockTimeout
                   (case client of Inl err \<Rightarrow> Some err | Inr c \<Rightarrow> None)])),
      oshelp_GetLiteEngineLogsPath = (\<lambda>os. ''/var/log/lite-engine/'' @ os),
      AddContext = (\<lambda>logr c. logr),
      envState_Delete = (\<lambda>sid w. w @ [EvEnvStateDelete sid]),
      backoff_NewExponentialBackOff = (\<lambda>w. (0, w @ [EvNewExponentialBackOff])),
      set_MaxElapsedTime = (\<lambda>d b. b),
      NextBackOff = (\<lambda>b w. ((500000000, Suc b), w @ [EvNextBackOff 500000000])),
      time_Sleep = (\<lambda>d w. w @ [EvSleep d])\<rparr>"

definition rec_state :: "event list state" where
  "rec_state = \<lparr>world = [], trace = []\<rparr>"

text \<open>
  An attempt with recording collaborators, under the context \<open>ctx\<close>: the client (when
  \<open>client\<close> is one) answers \<open>answer\<close>, the store's \<^verbatim>\<open>Delete\<close> answers \<open>deleted\<close>, the
  lookups find the owner and the instance, the pool manager's \<^verbatim>\<open>Destroy\<close> succeeds.
\<close>

definition rec_run ::
  "context \<Rightarrow> (error + event list Client) \<Rightarrow> error option
     \<Rightarrow> (Instance option \<times> error option) \<times> event list state" where
  "rec_run ctx client deleted =
     handleDestroy (rec_packages client) ctx stub_request
       (rec_store (Some stub_owner, None) deleted) stub_env
       (rec_manager (Some stub_instance, None) None) rec_metrics 0 rec_state"

subsection \<open>Threshold classification\<close>

text \<open>
  C7. For every percentage, the three flags are the inclusive comparisons with 50, 70
  and 90; the triple is monotonic (\<open>ge90\<close> implies \<open>ge70\<close> implies \<open>ge50\<close>); 95 gives
  (true, true, true), 60 gives (true, false, false), 20 gives (false, false, false), and
  50, 70 and 90 are true at their own tier.
\<close>

theorem usage_flags_inclusive_monotonic:
  "usage_flags p = (f64_ge p 50, f64_ge p 70, f64_ge p 90)
   \<and> (case usage_flags p of (ge50, ge70, ge90) \<Rightarrow> (ge90 \<longrightarrow> ge70) \<and> (ge70 \<longrightarrow> ge50))
   \<and> usage_flags (Finite 95) = (True, True, True)
   \<and> usage_flags (Finite 60) = (True, False, False)
   \<and> usage_flags (Finite 20) = (False, False, False)
   \<and> fst (usage_flags (Finite 50))
   \<and> fst (snd (usage_flags (Finite 70)))
   \<and> snd (snd (usage_flags (Finite 90)))"
  by (cases p) (auto simp: usage_flags_def)

theorem usage_flags_inclusive_monotonic_witness:
  "usage_flags (Finite 90) = (True, True, True)
   \<and> (case usage_flags (Finite 90) of (ge50, ge70, ge90) \<Rightarrow> (ge90 \<longrightarrow> ge70) \<and> (ge70 \<longrightarrow> ge50))"
  using usage_flags_inclusive_monotonic [of "Finite 90"] by simp

subsection \<open>The log of one attempt\<close>

text \<open>
  Each call adds one event to the log. An attempt takes one of four paths (the lookup of
  the stage owner fails, the lookup of the instance fails, the termination fails, or the
  instance is destroyed, with lines 91--132 in between on the last two), and on each path
  the events it adds are known.
\<close>

lemmas call_defs = call_Find_def call_Delete_def call_GetInstanceByStageID_def call_Destroy_def
  call_GetClient_def call_Client_Destroy_def call_CPUPercentile_def call_MemoryPercentile_def
  call_envState_Delete_def call_NextBackOff_def call_Sleep_def Traceln_def Errorln_def Tracef_def emit_def

lemmas stub_defs = stub_store_def stub_manager_def stub_metrics_def stub_client_def
  stub_packages_def stub_request_def stub_env_def stub_owner_def stub_instance_def
  stub_stats_def stub_state_def

lemmas eval_defs = handleDestroy_def liteEngineCleanup_def call_defs stub_defs
  stub_store_ok_def stub_manager_ok_def stub_store_never_def stub_store_late_def stub_store_nil_def
  Let_def new_events_def errors_Wrap_def usage_flags_def

lemmas loop_eval_defs = loop_body_def createBackoff_def HandleDestroy_def backoff_Stop_def
  destroyTimeout_def time_Minute_def NewBadRequestError_def

lemmas rec_defs = rec_store_def rec_manager_def rec_metrics_def rec_client_def rec_packages_def
  rec_state_def rec_run_def

lemma new_events_append: "trace st' = trace st @ evs \<Longrightarrow> new_events st st' = evs"
  by (simp add: new_events_def)

lemma trace_emit: "trace (emit ev st) = trace st @ [ev]"
  by (simp add: emit_def)

lemma call_Find_trace:
  "call_Find s ctx sid st = ((entity, err), st') \<Longrightarrow> trace st' = trace st @ [EvFind ctx sid entity err]"
  by (auto simp: call_Find_def emit_def split: prod.splits)

lemma call_GetInstanceByStageID_trace:
  "call_GetInstanceByStageID m ctx poolID sid st = ((inst, err), st')
   \<Longrightarrow> trace st' = trace st @ [EvGetInstanceByStageID ctx poolID sid inst err]"
  by (auto simp: call_GetInstanceByStageID_def emit_def split: prod.splits)

lemma call_Destroy_trace:
  "call_Destroy m ctx poolID instID st = (err, st')
   \<Longrightarrow> trace st' = trace st @ [EvManagerDestroy ctx poolID instID err]"
  by (auto simp: call_Destroy_def emit_def split: prod.splits)

lemma call_Delete_trace:
  "call_Delete s ctx sid st = (err, st') \<Longrightarrow> trace st' = trace st @ [EvStoreDelete ctx sid err]"
  by (auto simp: call_Delete_def emit_def split: prod.splits)

lemma call_GetClient_trace:
  "call_GetClient pk inst n p m t st = (res, st')
   \<Longrightarrow> trace st' = trace st @ [EvGetClient inst n p m t (case res of Inl err \<Rightarrow> Some err | Inr client \<Rightarrow> None)]"
  by (auto simp: call_GetClient_def emit_def split: prod.splits)

lemma call_Client_Destroy_trace:
  "call_Client_Destroy client ctx req st = ((resp, err), st')
   \<Longrightarrow> trace st' = trace st @ [EvClientDestroy ctx req resp err]"
  by (auto simp: call_Client_Destroy_def emit_def split: prod.splits)

lemma log_trace:
  "trace (Traceln logr msg st) = trace st @ [EvLog TraceLevel msg logr]"
  "trace (Errorln logr msg st) = trace st @ [EvLog ErrorLevel msg logr]"
  "trace (Tracef logr format args st) = trace st @ [EvLogf TraceLevel format args logr]"
  by (simp_all add: Traceln_def Errorln_def Tracef_def emit_def)

lemma void_call_trace:
  "trace (call_CPUPercentile metrics lvs v st) = trace st @ [EvObserveCPU lvs v]"
  "trace (call_MemoryPercentile metrics lvs v st) = trace st @ [EvObserveMemory lvs v]"
  "trace (call_envState_Delete pk sid st) = trace st @ [EvEnvStateDelete sid]"
  "trace (call_Sleep pk d st) = trace st @ [EvSleep d]"
  by (simp_all add: call_CPUPercentile_def call_MemoryPercentile_def call_envState_Delete_def
        call_Sleep_def emit_def)

text \<open>The three shapes of the log of lines 91--132.\<close>

lemma liteEngineCleanup_cases:
  obtains
    (no_client) e where
      "trace (liteEngineCleanup pk r env metrics poolID inst logr st) = trace st @
            [EvGetClient inst (Runner_Name env) (Port inst) (LiteEngine_EnableMock env)
               (LiteEngine_MockStepTimeoutSecs env) (Some e),
             EvLog ErrorLevel ''could not create lite engine client for invoking cleanup''
               (WithError e logr)]"
  | (no_stats) resp derr where
      "resp = None \<or> OSStats (the resp) = None"
      "trace (liteEngineCleanup pk r env metrics poolID inst logr st) = trace st @
            [EvGetClient inst (Runner_Name env) (Port inst) (LiteEngine_EnableMock env)
               (LiteEngine_MockStepTimeoutSecs env) None,
             EvClientDestroy Background
               \<lparr>LogDrone = False, DestroyRequest_LogKey = LogKey r,
                LiteEnginePath = oshelp_GetLiteEngineLogsPath pk (OS inst)\<rparr> resp derr]
            @ (case derr of None \<Rightarrow> []
               | Some e \<Rightarrow> [EvLog ErrorLevel ''could not invoke lite engine cleanup''
                              (WithError e logr)])"
  | (stats) resp derr stats format args lg where
      "OSStats resp = Some stats"
      "trace (liteEngineCleanup pk r env metrics poolID inst logr st) = trace st @
            [EvGetClient inst (Runner_Name env) (Port inst) (LiteEngine_EnableMock env)
               (LiteEngine_MockStepTimeoutSecs env) None,
             EvClientDestroy Background
               \<lparr>LogDrone = False, DestroyRequest_LogKey = LogKey r,
                LiteEnginePath = oshelp_GetLiteEngineLogsPath pk (OS inst)\<rparr> (Some resp) derr]
            @ (case derr of None \<Rightarrow> []
               | Some e \<Rightarrow> [EvLog ErrorLevel ''could not invoke lite engine cleanup''
                              (WithError e logr)])
            @ [EvObserveCPU [poolID, OS inst, Arch inst, Provider inst] (MaxCPUUsagePct stats),
               EvObserveMemory [poolID, OS inst, Arch inst, Provider inst] (MaxMemUsagePct stats),
               EvLogf TraceLevel format args lg]"
proof -
  let ?st6 = "liteEngineCleanup pk r env metrics poolID inst logr st"
  let ?req = "\<lparr>LogDrone = False, DestroyRequest_LogKey = LogKey r,
               LiteEnginePath = oshelp_GetLiteEngineLogsPath pk (OS inst)\<rparr>"
  obtain res st5 where gc: "call_GetClient pk inst (Runner_Name env) (Port inst)
             (LiteEngine_EnableMock env) (LiteEngine_MockStepTimeoutSecs env) st = (res, st5)"
    by (cases "call_GetClient pk inst (Runner_Name env) (Port inst)
             (LiteEngine_EnableMock env) (LiteEngine_MockStepTimeoutSecs env) st")
  note t5 = call_GetClient_trace [OF gc]
  show thesis
  proof (cases res)
    case (Inl e)
    have "trace ?st6 = trace st @
            [EvGetClient inst (Runner_Name env) (Port inst) (LiteEngine_EnableMock env)
               (LiteEngine_MockStepTimeoutSecs env) (Some e),
             EvLog ErrorLevel ''could not create lite engine client for invoking cleanup''
               (WithError e logr)]"
      by (simp add: liteEngineCleanup_def gc Inl log_trace t5)
    then show thesis by (rule no_client)
  next
    case (Inr client)
    obtain resp derr st5a where
      cd: "call_Client_Destroy client Background ?req st5 = ((resp, derr), st5a)"
      by (cases "call_Client_Destroy client Background ?req st5") auto
    note t5a = call_Client_Destroy_trace [OF cd]
    show thesis
    proof (cases "resp \<noteq> None \<and> OSStats (the resp) \<noteq> None")
      case False
      then have none: "resp = None \<or> OSStats (the resp) = None" by blast
      have "trace ?st6 = trace st @
            [EvGetClient inst (Runner_Name env) (Port inst) (LiteEngine_EnableMock env)
               (LiteEngine_MockStepTimeoutSecs env) None,
             EvClientDestroy Background ?req resp derr]
            @ (case derr of None \<Rightarrow> []
               | Some e \<Rightarrow> [EvLog ErrorLevel ''could not invoke lite engine cleanup''
                              (WithError e logr)])"
        using False
        by (cases derr)
           (auto simp add: liteEngineCleanup_def gc Inr cd log_trace t5 t5a Let_def)
      with none show thesis by (rule no_stats)
    next
      case True
      then obtain rp stats where rp: "resp = Some rp" "OSStats rp = Some stats" by auto
      obtain c50 c70 c90 where cf: "usage_flags (MaxCPUUsagePct stats) = (c50, c70, c90)"
        by (cases "usage_flags (MaxCPUUsagePct stats)") auto
      obtain m50 m70 m90 where mf: "usage_flags (MaxMemUsagePct stats) = (m50, m70, m90)"
        by (cases "usage_flags (MaxMemUsagePct stats)") auto
      have "\<exists>format args lg. trace ?st6 = trace st @
            [EvGetClient inst (Runner_Name env) (Port inst) (LiteEngine_EnableMock env)
               (LiteEngine_MockStepTimeoutSecs env) None,
             EvClientDestroy Background ?req (Some rp) derr]
            @ (case derr of None \<Rightarrow> []
               | Some e \<Rightarrow> [EvLog ErrorLevel ''could not invoke lite engine cleanup''
                              (WithError e logr)])
            @ [EvObserveCPU [poolID, OS inst, Arch inst, Provider inst] (MaxCPUUsagePct stats),
               EvObserveMemory [poolID, OS inst, Arch inst, Provider inst] (MaxMemUsagePct stats),
               EvLogf TraceLevel format args lg]"
        by (cases derr)
           (simp_all add: liteEngineCleanup_def gc Inr cd rp cf mf log_trace void_call_trace
              t5 t5a Let_def)
      then show thesis using stats [OF rp(2)] by blast
    qed
  qed
qed

lemma liteEngineCleanup_extends:
  "trace (liteEngineCleanup pk r env metrics poolID inst logr st)
     = trace st @ new_events st (liteEngineCleanup pk r env metrics poolID inst logr st)"
  by (rule liteEngineCleanup_cases [of pk r env metrics poolID inst logr st])
     (simp_all add: new_events_def)

lemma handleDestroy_cases:
  assumes run: "handleDestroy pk ctx r s env poolManager metrics retryCount st = ((res, err), st')"
  obtains
    (find_failed) entity ferr where
      "ferr \<noteq> None \<or> entity = None"
      "new_events st st' = [EvFind ctx (StageRuntimeID r) entity ferr]"
      "res = None"
      "err = errors_Wrap ferr
               (''failed to find stage owner entity for stage: '' @ StageRuntimeID r)"
  | (lookup_failed) ent inst gerr lg where
      "gerr \<noteq> None \<or> inst = None"
      "new_events st st' =
         [EvFind ctx (StageRuntimeID r) (Some ent) None,
          EvLog TraceLevel ''starting the destroy process'' lg,
          EvGetInstanceByStageID ctx (PoolName ent) (StageRuntimeID r) inst gerr]"
      "res = None"
      "err = Some (case gerr of
                     Some e \<Rightarrow> Errorf_w ''cannot get the instance by tag: '' e
                   | None \<Rightarrow> Errorf (''instance with stage runtime ID '' @ StageRuntimeID r
                                       @ '' not found''))"
  | (destroy_failed) ent inst lg lg' st4 e where
      "new_events st st' =
         [EvFind ctx (StageRuntimeID r) (Some ent) None,
          EvLog TraceLevel ''starting the destroy process'' lg,
          EvGetInstanceByStageID ctx (PoolName ent) (StageRuntimeID r) (Some inst) None,
          EvLog TraceLevel ''invoking lite engine cleanup'' lg']
         @ new_events st4 (liteEngineCleanup pk r env metrics (PoolName ent) inst lg' st4)
         @ [EvLog TraceLevel ''successfully invoked lite engine cleanup, destroying instance'' lg',
            EvManagerDestroy ctx (PoolName ent) (ID inst) (Some e)]"
      "res = None"
      "err = Some (Errorf_w ''cannot destroy the instance: '' e)"
  | (destroyed) ent inst lg lg' st4 derr where
      "new_events st st' =
         [EvFind ctx (StageRuntimeID r) (Some ent) None,
          EvLog TraceLevel ''starting the destroy process'' lg,
          EvGetInstanceByStageID ctx (PoolName ent) (StageRuntimeID r) (Some inst) None,
          EvLog TraceLevel ''invoking lite engine cleanup'' lg']
         @ new_events st4 (liteEngineCleanup pk r env metrics (PoolName ent) inst lg' st4)
         @ [EvLog TraceLevel ''successfully invoked lite engine cleanup, destroying instance'' lg',
            EvManagerDestroy ctx (PoolName ent) (ID inst) None,
            EvLog TraceLevel ''destroyed instance'' lg',
            EvEnvStateDelete (StageRuntimeID r),
            EvStoreDelete ctx (StageRuntimeID r) derr]
         @ (case derr of None \<Rightarrow> []
            | Some e \<Rightarrow> [EvLog ErrorLevel ''failed to delete stage owner entity''
                           (WithError e lg')])"
      "res = Some inst"
      "err = None"
proof -
  let ?sid = "StageRuntimeID r"
  obtain entity ferr st1 where F: "call_Find s ctx ?sid st = ((entity, ferr), st1)"
    by (cases "call_Find s ctx ?sid st") auto
  note t1 = call_Find_trace [OF F]
  show thesis
  proof (cases "ferr \<noteq> None \<or> entity = None")
    case True
    with run F have out: "st' = st1" "res = None"
      "err = errors_Wrap ferr (''failed to find stage owner entity for stage: '' @ ?sid)"
      by (auto simp add: handleDestroy_def)
    from t1 out(1) have "new_events st st' = [EvFind ctx ?sid entity ferr]"
      by (simp add: new_events_def)
    then show thesis by (rule find_failed [OF True _ out(2,3)])
  next
    case False
    then obtain ent where ent: "entity = Some ent" "ferr = None" by auto
    let ?lg = "AddContext pk
                 (WithField ''retry_count'' (LInt retryCount)
                   (WithField ''api'' (LStr ''dlite:destroy'')
                     (WithField ''pool'' (LStr (PoolName ent))
                       (WithField ''stage_runtime_id'' (LStr ?sid) []))))
                 (Context r)"
    let ?st2 = "Traceln ?lg ''starting the destroy process'' st1"
    obtain inst gerr st3 where
      G: "call_GetInstanceByStageID poolManager ctx (PoolName ent) ?sid ?st2 = ((inst, gerr), st3)"
      by (cases "call_GetInstanceByStageID poolManager ctx (PoolName ent) ?sid ?st2") auto
    have t3: "trace st3 = trace st @ [EvFind ctx ?sid (Some ent) None,
          EvLog TraceLevel ''starting the destroy process'' ?lg,
          EvGetInstanceByStageID ctx (PoolName ent) ?sid inst gerr]"
      using call_GetInstanceByStageID_trace [OF G] t1 ent by (simp add: log_trace)
    show thesis
    proof (cases "gerr \<noteq> None \<or> inst = None")
      case True
      with run F ent G have out: "st' = st3" "res = None"
        "err = Some (case gerr of
                     Some e \<Rightarrow> Errorf_w ''cannot get the instance by tag: '' e
                   | None \<Rightarrow> Errorf (''instance with stage runtime ID '' @ ?sid
                                       @ '' not found''))"
        by (auto simp add: handleDestroy_def Let_def split: if_splits)
      from t3 out(1) have "new_events st st' = [EvFind ctx ?sid (Some ent) None,
          EvLog TraceLevel ''starting the destroy process'' ?lg,
          EvGetInstanceByStageID ctx (PoolName ent) ?sid inst gerr]"
        by (simp add: new_events_def)
      then show thesis by (rule lookup_failed [OF True _ out(2,3)])
    next
      case False
      then obtain i where i: "inst = Some i" "gerr = None" by auto
      let ?lg' = "WithField ''instance_name'' (LStr (Name i))
                    (WithField ''instance_id'' (LStr (ID i)) ?lg)"
      let ?st4 = "Traceln ?lg' ''invoking lite engine cleanup'' st3"
      let ?st6 = "liteEngineCleanup pk r env metrics (PoolName ent) i ?lg' ?st4"
      let ?st7 = "Traceln ?lg'
                    ''successfully invoked lite engine cleanup, destroying instance'' ?st6"
      let ?gs = "new_events ?st4 ?st6"
      obtain derr st8 where
        D: "call_Destroy poolManager ctx (PoolName ent) (ID i) ?st7 = (derr, st8)"
        by (cases "call_Destroy poolManager ctx (PoolName ent) (ID i) ?st7") auto
      have t6: "trace ?st6 = trace ?st4 @ ?gs"
        by (rule liteEngineCleanup_extends)
      have t8: "trace st8 = trace st @ [EvFind ctx ?sid (Some ent) None,
          EvLog TraceLevel ''starting the destroy process'' ?lg,
          EvGetInstanceByStageID ctx (PoolName ent) ?sid (Some i) None,
          EvLog TraceLevel ''invoking lite engine cleanup'' ?lg']
         @ ?gs
         @ [EvLog TraceLevel ''successfully invoked lite engine cleanup, destroying instance'' ?lg',
            EvManagerDestroy ctx (PoolName ent) (ID i) derr]"
        using call_Destroy_trace [OF D] t3 i
        by (simp only: log_trace t6) simp
      show thesis
      proof (cases derr)
        case (Some e)
        with run F ent G i D have out: "st' = st8" "res = None"
          "err = Some (Errorf_w ''cannot destroy the instance: '' e)"
          by (auto simp add: handleDestroy_def Let_def)
        from t8 out(1) Some have "new_events st st' = [EvFind ctx ?sid (Some ent) None,
          EvLog TraceLevel ''starting the destroy process'' ?lg,
          EvGetInstanceByStageID ctx (PoolName ent) ?sid (Some i) None,
          EvLog TraceLevel ''invoking lite engine cleanup'' ?lg']
         @ ?gs
         @ [EvLog TraceLevel ''successfully invoked lite engine cleanup, destroying instance'' ?lg',
            EvManagerDestroy ctx (PoolName ent) (ID i) (Some e)]"
          by (simp add: new_events_def)
        then show thesis by (rule destroy_failed [OF _ out(2,3)])
      next
        case None
        let ?st10 = "call_envState_Delete pk ?sid (Traceln ?lg' ''destroyed instance'' st8)"
        obtain serr st11 where S: "call_Delete s ctx ?sid ?st10 = (serr, st11)"
          by (cases "call_Delete s ctx ?sid ?st10") auto
        have t11: "trace st11 = trace st8 @ [EvLog TraceLevel ''destroyed instance'' ?lg',
            EvEnvStateDelete ?sid, EvStoreDelete ctx ?sid serr]"
          using call_Delete_trace [OF S] by (simp add: log_trace void_call_trace)
        from run F ent G i D None S have out: "res = Some i" "err = None"
          "st' = (if serr \<noteq> None then
                 Errorln (WithError (the serr) ?lg') ''failed to delete stage owner entity'' st11
               else st11)"
          by (auto simp add: handleDestroy_def Let_def)
        have "trace st' = trace st @ [EvFind ctx ?sid (Some ent) None,
          EvLog TraceLevel ''starting the destroy process'' ?lg,
          EvGetInstanceByStageID ctx (PoolName ent) ?sid (Some i) None,
          EvLog TraceLevel ''invoking lite engine cleanup'' ?lg']
         @ ?gs
         @ [EvLog TraceLevel ''successfully invoked lite engine cleanup, destroying instance'' ?lg',
            EvManagerDestroy ctx (PoolName ent) (ID i) None,
            EvLog TraceLevel ''destroyed instance'' ?lg',
            EvEnvStateDelete ?sid,
            EvStoreDelete ctx ?sid serr]
         @ (case serr of None \<Rightarrow> []
            | Some e \<Rightarrow> [EvLog ErrorLevel ''failed to delete stage owner entity''
                           (WithError e ?lg')])"
          using out(3) t11 t8 None by (cases serr) (simp_all add: log_trace)
        then have "new_events st st' = [EvFind ctx ?sid (Some ent) None,
          EvLog TraceLevel ''starting the destroy process'' ?lg,
          EvGetInstanceByStageID ctx (PoolName ent) ?sid (Some i) None,
          EvLog TraceLevel ''invoking lite engine cleanup'' ?lg']
         @ ?gs
         @ [EvLog TraceLevel ''successfully invoked lite engine cleanup, destroying instance'' ?lg',
            EvManagerDestroy ctx (PoolName ent) (ID i) None,
            EvLog TraceLevel ''destroyed instance'' ?lg',
            EvEnvStateDelete ?sid,
            EvStoreDelete ctx ?sid serr]
         @ (case serr of None \<Rightarrow> []
            | Some e \<Rightarrow> [EvLog ErrorLevel ''failed to delete stage owner entity''
                           (WithError e ?lg')])"
          by (rule new_events_append)
        then show thesis by (rule destroyed [OF _ out(1,2)])
      qed
    qed
  qed
qed

lemma liteEngineCleanup_events:
  "e \<in> set (new_events st (liteEngineCleanup pk r env metrics poolID inst logr st))
   \<Longrightarrow> is_cleanup_event e"
  by (rule liteEngineCleanup_cases [of pk r env metrics poolID inst logr st])
     (auto simp add: new_events_def split: option.splits)

lemma cleanup_event_simps:
  "is_cleanup_event e \<Longrightarrow> \<not> is_ManagerDestroy e"
  "is_cleanup_event e \<Longrightarrow> \<not> is_retirement e"
  "is_cleanup_event e \<Longrightarrow> e \<noteq> EvManagerDestroy c p i x"
  "is_cleanup_event e \<Longrightarrow> e \<noteq> EvGetInstanceByStageID c p sid inst x"
  "is_cleanup_event e \<Longrightarrow> e \<noteq> EvFind c sid ent x"
  by (cases e; simp)+

lemma filter_cleanup:
  assumes "\<And>e. e \<in> set gs \<Longrightarrow> is_cleanup_event e"
  shows "filter is_ManagerDestroy gs = []" "filter is_retirement gs = []"
  using assms by (auto simp add: filter_empty_conv cleanup_event_simps)

text \<open>On the log alone: after a lookup that found the instance, one termination call.\<close>

lemma manager_destroy_once:
  assumes run: "handleDestroy pk ctx r s env poolManager metrics retryCount st = ((res, err), st')"
    and resolved: "EvGetInstanceByStageID c p sid (Some inst) None \<in> set (new_events st st')"
  shows "\<exists>derr. filter is_ManagerDestroy (new_events st st') = [EvManagerDestroy ctx p (ID inst) derr]
           \<and> (derr = None \<longrightarrow> res = Some inst \<and> err = None)"
  using run
proof (cases rule: handleDestroy_cases)
  case (find_failed entity ferr)
  with resolved show ?thesis by simp
next
  case (lookup_failed ent inst gerr lg)
  with resolved show ?thesis by auto
next
  case (destroy_failed ent i lg lg' st4 e)
  note gs = liteEngineCleanup_events [of _ st4 pk r env metrics "PoolName ent" i lg']
  from resolved destroy_failed(1) have "inst = i \<and> p = PoolName ent"
    by (auto dest: gs)
  with destroy_failed show ?thesis
    by (simp add: filter_cleanup [OF gs])
next
  case (destroyed ent i lg lg' st4 derr)
  note gs = liteEngineCleanup_events [of _ st4 pk r env metrics "PoolName ent" i lg']
  from resolved destroyed(1) have "inst = i \<and> p = PoolName ent"
    by (cases derr) (auto dest: gs)
  with destroyed show ?thesis
    by (cases derr) (simp_all add: filter_cleanup [OF gs])
qed

lemma not_retirement_cleanup:
  "e \<in> set (new_events st (liteEngineCleanup pk r env metrics poolID inst logr st))
   \<Longrightarrow> \<not> is_retirement e"
  by (rule cleanup_event_simps(2)) (rule liteEngineCleanup_events)

text \<open>
  C3. In every attempt, when the pool manager's \<^verbatim>\<open>Destroy\<close> returns an error \<open>e\<close>, the
  attempt returns no instance and the error \<^verbatim>\<open>cannot destroy the instance: e\<close>, and
  neither the registry deletion nor the record deletion is called. When an attempt does
  call one of the two, a \<^verbatim>\<open>Destroy\<close> that returned no error stands in the log before the
  first of them.
\<close>

theorem termination_failure_aborts_before_retirement:
  assumes run: "handleDestroy pk ctx r s env poolManager metrics retryCount st = ((res, err), st')"
  shows "(\<forall>c p i e. EvManagerDestroy c p i (Some e) \<in> set (new_events st st') \<longrightarrow>
            res = None \<and> err = Some (Errorf_w ''cannot destroy the instance: '' e)
            \<and> filter is_retirement (new_events st st') = [])
         \<and> (filter is_retirement (new_events st st') \<noteq> [] \<longrightarrow>
              (\<exists>p i. EvManagerDestroy ctx p i None
                        \<in> set (takeWhile (\<lambda>ev. \<not> is_retirement ev) (new_events st st'))))"
  using run
proof (cases rule: handleDestroy_cases)
  case (find_failed entity ferr)
  then show ?thesis by simp
next
  case (lookup_failed ent inst gerr lg)
  then show ?thesis by simp
next
  case (destroy_failed ent i lg lg' st4 e)
  note gs = liteEngineCleanup_events [of _ st4 pk r env metrics "PoolName ent" i lg']
  from destroy_failed show ?thesis
    by (auto simp add: filter_cleanup [OF gs] dest: gs
         )
next
  case (destroyed ent i lg lg' st4 derr)
  note gs = liteEngineCleanup_events [of _ st4 pk r env metrics "PoolName ent" i lg']
  let ?gs = "new_events st4 (liteEngineCleanup pk r env metrics (PoolName ent) i lg' st4)"
  have tw: "takeWhile (\<lambda>ev. \<not> is_retirement ev) (?gs @ ys)
              = ?gs @ takeWhile (\<lambda>ev. \<not> is_retirement ev) ys" for ys
    by (rule takeWhile_append2) (rule not_retirement_cleanup)
  have first: "\<forall>c p i e. EvManagerDestroy c p i (Some e) \<notin> set (new_events st st')"
    using destroyed(1) by (cases derr) (auto dest: gs)
  have second: "EvManagerDestroy ctx (PoolName ent) (ID i) None
                  \<in> set (takeWhile (\<lambda>ev. \<not> is_retirement ev) (new_events st st'))"
    unfolding destroyed(1) by (simp add: tw)
  from first second show ?thesis by blast
qed

theorem termination_failure_aborts_before_retirement_witness:
  "EvManagerDestroy (CallerContext 1 False) ''linux-pool'' ''i-0abc'' (Some (Err ''cloud api down''))
     \<in> set (new_events stub_state (snd run_destroy_error))
   \<and> fst run_destroy_error
       = (None, Some (Errorf_w ''cannot destroy the instance: '' (Err ''cloud api down'')))
   \<and> filter is_retirement (new_events stub_state (snd run_destroy_error)) = []
   \<and> filter is_retirement (new_events stub_state (snd run_delete_error)) \<noteq> []
   \<and> (\<exists>p i. EvManagerDestroy (CallerContext 1 False) p i None
               \<in> set (takeWhile (\<lambda>ev. \<not> is_retirement ev)
                        (new_events stub_state (snd run_delete_error))))"
proof -
  have run1: "handleDestroy (stub_packages (Inl (Err ''no route to host'')) 3)
       (CallerContext 1 False) stub_request stub_store_ok stub_env
       (stub_manager (Some stub_instance, None) (\<lambda>w. Some (Err ''cloud api down'')))
       stub_metrics 0 stub_state
       = ((fst (fst run_destroy_error), snd (fst run_destroy_error)), snd run_destroy_error)"
    by (simp add: run_destroy_error_def)
  have failed: "EvManagerDestroy (CallerContext 1 False) ''linux-pool'' ''i-0abc''
       (Some (Err ''cloud api down'')) \<in> set (new_events stub_state (snd run_destroy_error))"
    by (simp add: run_destroy_error_def eval_defs)
  have run2: "handleDestroy (stub_packages (Inl (Err ''no route to host'')) 3)
       (CallerContext 1 False) stub_request
       (stub_store (\<lambda>w. (Some stub_owner, None)) (Some (Err ''database is locked'')))
       stub_env stub_manager_ok stub_metrics 0 stub_state
       = ((fst (fst run_delete_error), snd (fst run_delete_error)), snd run_delete_error)"
    by (simp add: run_delete_error_def)
  have retired: "filter is_retirement (new_events stub_state (snd run_delete_error)) \<noteq> []"
    by (simp add: run_delete_error_def eval_defs)
  from termination_failure_aborts_before_retirement [OF run1] failed
       termination_failure_aborts_before_retirement [OF run2] retired
  show ?thesis
    by (auto simp add: prod_eq_iff)
qed

text \<open>On the log alone: what follows a termination that returned no error.\<close>

lemma retirement_log_shape:
  assumes run: "handleDestroy pk ctx r s env poolManager metrics retryCount st = ((res, err), st')"
    and terminated: "EvManagerDestroy c p i None \<in> set (new_events st st')"
  shows "\<exists>inst pre lg derr.
           new_events st st' =
             pre @ [EvManagerDestroy ctx p (ID inst) None,
                    EvLog TraceLevel ''destroyed instance'' lg,
                    EvEnvStateDelete (StageRuntimeID r),
                    EvStoreDelete ctx (StageRuntimeID r) derr]
                 @ (case derr of None \<Rightarrow> []
                    | Some e \<Rightarrow> [EvLog ErrorLevel ''failed to delete stage owner entity''
                                   (WithError e lg)])
           \<and> EvGetInstanceByStageID ctx p (StageRuntimeID r) (Some inst) None \<in> set pre
           \<and> filter is_retirement pre = []
           \<and> i = ID inst \<and> res = Some inst \<and> err = None"
  using run
proof (cases rule: handleDestroy_cases)
  case (find_failed entity ferr)
  with terminated show ?thesis by simp
next
  case (lookup_failed ent inst gerr lg)
  with terminated show ?thesis by simp
next
  case (destroy_failed ent i' lg lg' st4 e)
  note gs = liteEngineCleanup_events [of _ st4 pk r env metrics "PoolName ent" i' lg']
  from terminated destroy_failed(1) have False
    by (auto dest: gs)
  then show ?thesis ..
next
  case (destroyed ent i' lg lg' st4 derr)
  note gs = liteEngineCleanup_events [of _ st4 pk r env metrics "PoolName ent" i' lg']
  let ?gs = "new_events st4 (liteEngineCleanup pk r env metrics (PoolName ent) i' lg' st4)"
  let ?pre = "[EvFind ctx (StageRuntimeID r) (Some ent) None,
          EvLog TraceLevel ''starting the destroy process'' lg,
          EvGetInstanceByStageID ctx (PoolName ent) (StageRuntimeID r) (Some i') None,
          EvLog TraceLevel ''invoking lite engine cleanup'' lg']
         @ ?gs
         @ [EvLog TraceLevel ''successfully invoked lite engine cleanup, destroying instance'' lg']"
  from terminated destroyed(1) have eq: "i = ID i'" "p = PoolName ent"
    by (cases derr; auto dest: gs)+
  have "new_events st st' =
             ?pre @ [EvManagerDestroy ctx p (ID i') None,
                    EvLog TraceLevel ''destroyed instance'' lg',
                    EvEnvStateDelete (StageRuntimeID r),
                    EvStoreDelete ctx (StageRuntimeID r) derr]
                 @ (case derr of None \<Rightarrow> []
                    | Some e \<Rightarrow> [EvLog ErrorLevel ''failed to delete stage owner entity''
                                   (WithError e lg')])"
    unfolding destroyed(1) eq by simp
  moreover have "EvGetInstanceByStageID ctx p (StageRuntimeID r) (Some i') None \<in> set ?pre"
    unfolding eq by simp
  moreover have "filter is_retirement ?pre = []"
    by (simp add: filter_cleanup [OF gs])
  ultimately show ?thesis using eq destroyed(2,3) by blast
qed

lemma cleanup_client_calls:
  assumes "EvGetClient inst' a b c d None
             \<in> set (new_events st (liteEngineCleanup pk r env metrics poolID inst logr st))"
  shows "List.map_filter client_call
           (new_events st (liteEngineCleanup pk r env metrics poolID inst logr st))
         = [(Background, \<lparr>LogDrone = False, DestroyRequest_LogKey = LogKey r,
                LiteEnginePath = oshelp_GetLiteEngineLogsPath pk (OS inst)\<rparr>)]
         \<and> inst' = inst"
  using assms
  by (cases rule: liteEngineCleanup_cases [of pk r env metrics poolID inst logr st])
     (auto simp add: new_events_def List.map_filter_simps split: option.splits)

lemma map_filter_append:
  "List.map_filter f (xs @ ys) = List.map_filter f xs @ List.map_filter f ys"
  by (simp add: List.map_filter_def)

lemma client_calls_of_attempt:
  assumes run: "handleDestroy pk ctx r s env poolManager metrics retryCount st = ((res, err), st')"
    and reached: "EvGetClient inst a b c d None \<in> set (new_events st st')"
  shows "List.map_filter client_call (new_events st st')
         = [(Background, \<lparr>LogDrone = False, DestroyRequest_LogKey = LogKey r,
                LiteEnginePath = oshelp_GetLiteEngineLogsPath pk (OS inst)\<rparr>)]"
  using run
proof (cases rule: handleDestroy_cases)
  case (find_failed entity ferr)
  with reached show ?thesis by simp
next
  case (lookup_failed ent inst gerr lg)
  with reached show ?thesis by simp
next
  case (destroy_failed ent i lg lg' st4 e)
  from reached destroy_failed(1) have
    "EvGetClient inst a b c d None
       \<in> set (new_events st4 (liteEngineCleanup pk r env metrics (PoolName ent) i lg' st4))"
    by simp
  from cleanup_client_calls [OF this] show ?thesis
    unfolding destroy_failed(1) by (simp add: map_filter_append List.map_filter_simps)
next
  case (destroyed ent i lg lg' st4 derr)
  from reached destroyed(1) have
    "EvGetClient inst a b c d None
       \<in> set (new_events st4 (liteEngineCleanup pk r env metrics (PoolName ent) i lg' st4))"
    by (cases derr) simp_all
  from cleanup_client_calls [OF this] show ?thesis
    unfolding destroyed(1)
    by (cases derr) (simp_all add: map_filter_append List.map_filter_simps)
qed

lemma cleanup_metrics:
  assumes gs_def: "gs = new_events st (liteEngineCleanup pk r env metrics poolID inst logr st)"
  shows "(\<forall>c req resp derr stats.
            EvClientDestroy c req (Some resp) derr \<in> set gs \<and> OSStats resp = Some stats \<longrightarrow>
              filter is_ObserveCPU gs
                = [EvObserveCPU [poolID, OS inst, Arch inst, Provider inst] (MaxCPUUsagePct stats)]
              \<and> filter is_ObserveMemory gs
                = [EvObserveMemory [poolID, OS inst, Arch inst, Provider inst]
                     (MaxMemUsagePct stats)])
         \<and> ((\<forall>c req resp derr. EvClientDestroy c req resp derr \<in> set gs \<longrightarrow>
                resp = None \<or> OSStats (the resp) = None) \<longrightarrow>
              filter is_ObserveCPU gs = [] \<and> filter is_ObserveMemory gs = [])"
  unfolding gs_def
  by (cases rule: liteEngineCleanup_cases [of pk r env metrics poolID inst logr st])
     (auto simp add: new_events_def split: option.splits)

text \<open>On the log alone: the observations an attempt writes.\<close>

lemma stats_events:
  assumes run: "handleDestroy pk ctx r s env poolManager metrics retryCount st = ((res, err), st')"
  shows "(\<forall>c req resp derr stats.
            EvClientDestroy c req (Some resp) derr \<in> set (new_events st st')
            \<and> OSStats resp = Some stats \<longrightarrow>
              (\<exists>ent inst.
                 EvFind ctx (StageRuntimeID r) (Some ent) None \<in> set (new_events st st')
                 \<and> EvGetInstanceByStageID ctx (PoolName ent) (StageRuntimeID r) (Some inst) None
                     \<in> set (new_events st st')
                 \<and> filter is_ObserveCPU (new_events st st')
                     = [EvObserveCPU [PoolName ent, OS inst, Arch inst, Provider inst]
                          (MaxCPUUsagePct stats)]
                 \<and> filter is_ObserveMemory (new_events st st')
                     = [EvObserveMemory [PoolName ent, OS inst, Arch inst, Provider inst]
                          (MaxMemUsagePct stats)]))
         \<and> ((\<forall>c req resp derr. EvClientDestroy c req resp derr \<in> set (new_events st st') \<longrightarrow>
                resp = None \<or> OSStats (the resp) = None) \<longrightarrow>
              filter is_ObserveCPU (new_events st st') = []
              \<and> filter is_ObserveMemory (new_events st st') = [])"
  using run
proof (cases rule: handleDestroy_cases)
  case (find_failed entity ferr)
  then show ?thesis by simp
next
  case (lookup_failed ent inst gerr lg)
  then show ?thesis by simp
next
  case (destroy_failed ent i lg lg' st4 e)
  let ?gs = "new_events st4 (liteEngineCleanup pk r env metrics (PoolName ent) i lg' st4)"
  note m = cleanup_metrics [OF refl, of st4 pk r env metrics "PoolName ent" i lg']
  have cd: "EvClientDestroy c req resp derr \<in> set (new_events st st')
              \<longleftrightarrow> EvClientDestroy c req resp derr \<in> set ?gs" for c req resp derr
    unfolding destroy_failed(1) by simp
  have fc: "filter is_ObserveCPU (new_events st st') = filter is_ObserveCPU ?gs"
    and fm: "filter is_ObserveMemory (new_events st st') = filter is_ObserveMemory ?gs"
    unfolding destroy_failed(1) by simp_all
  have ev: "EvFind ctx (StageRuntimeID r) (Some ent) None \<in> set (new_events st st')"
    "EvGetInstanceByStageID ctx (PoolName ent) (StageRuntimeID r) (Some i) None
       \<in> set (new_events st st')"
    unfolding destroy_failed(1) by simp_all
  show ?thesis unfolding cd fc fm using m ev by blast
next
  case (destroyed ent i lg lg' st4 derr)
  let ?gs = "new_events st4 (liteEngineCleanup pk r env metrics (PoolName ent) i lg' st4)"
  note m = cleanup_metrics [OF refl, of st4 pk r env metrics "PoolName ent" i lg']
  have cd: "EvClientDestroy c req resp e \<in> set (new_events st st')
              \<longleftrightarrow> EvClientDestroy c req resp e \<in> set ?gs" for c req resp e
    unfolding destroyed(1) by (cases derr) simp_all
  have fc: "filter is_ObserveCPU (new_events st st') = filter is_ObserveCPU ?gs"
    and fm: "filter is_ObserveMemory (new_events st st') = filter is_ObserveMemory ?gs"
    unfolding destroyed(1) by (cases derr; simp)+
  have ev: "EvFind ctx (StageRuntimeID r) (Some ent) None \<in> set (new_events st st')"
    "EvGetInstanceByStageID ctx (PoolName ent) (StageRuntimeID r) (Some i) None
       \<in> set (new_events st st')"
    unfolding destroyed(1) by simp_all
  show ?thesis unfolding cd fc fm using m ev by blast
qed

subsection \<open>The log against the world\<close>

text \<open>
  The log is written by the model, so a statement on the log alone does not yet say what
  the collaborators were handed. Replaying the log closes the gap: every event of an
  attempt, applied to the collaborators in the order of the log and starting from the
  attempt's first world, returns what the event holds, and the replay ends in the
  attempt's last world.
\<close>

lemma replay_append:
  "replay pk s m metrics (xs @ ys) x =
     (case replay pk s m metrics xs x of
        None \<Rightarrow> None
      | Some x' \<Rightarrow> replay pk s m metrics ys x')"
  by (induction xs arbitrary: x) (auto split: option.splits)

lemma faithful_refl: "faithful pk s m metrics st cl st cl"
  by (simp add: faithful_def)

lemma faithful_trans:
  assumes "faithful pk s m metrics st cl st1 cl1" and "faithful pk s m metrics st1 cl1 st2 cl2"
  shows "faithful pk s m metrics st cl st2 cl2"
proof -
  from assms(1) obtain a where
    a: "trace st1 = trace st @ a" "replay pk s m metrics a (world st, cl) = Some (world st1, cl1)"
    unfolding faithful_def by blast
  from assms(2) obtain b where
    b: "trace st2 = trace st1 @ b"
       "replay pk s m metrics b (world st1, cl1) = Some (world st2, cl2)"
    unfolding faithful_def by blast
  have "trace st2 = trace st @ (a @ b)" by (simp add: a(1) b(1))
  moreover have "replay pk s m metrics (a @ b) (world st, cl) = Some (world st2, cl2)"
    by (simp add: replay_append a(2) b(2))
  ultimately show ?thesis unfolding faithful_def by blast
qed

lemma faithful_step:
  assumes "trace st' = trace st @ [ev]"
    and "replay_event pk s m metrics ev (world st, cl) = Some (world st', cl')"
  shows "faithful pk s m metrics st cl st' cl'"
  unfolding faithful_def using assms by (intro exI [of _ "[ev]"]) simp

lemma faithful_new_events:
  assumes "faithful pk s m metrics st cl st' cl'"
  shows "replay pk s m metrics (new_events st st') (world st, cl) = Some (world st', cl')"
proof -
  from assms obtain evs where
    e: "trace st' = trace st @ evs" "replay pk s m metrics evs (world st, cl) = Some (world st', cl')"
    unfolding faithful_def by blast
  from e(1) have "new_events st st' = evs" by (rule new_events_append)
  with e(2) show ?thesis by simp
qed

lemma faithful_Find:
  "call_Find s ctx sid st = ((entity, err), st') \<Longrightarrow> faithful pk s m metrics st cl st' cl"
  by (rule faithful_step [where ev = "EvFind ctx sid entity err"])
     (auto simp add: call_Find_def emit_def split: prod.splits)

lemma faithful_GetInstanceByStageID:
  "call_GetInstanceByStageID m ctx poolID sid st = ((inst, err), st')
   \<Longrightarrow> faithful pk s m metrics st cl st' cl"
  by (rule faithful_step [where ev = "EvGetInstanceByStageID ctx poolID sid inst err"])
     (auto simp add: call_GetInstanceByStageID_def emit_def split: prod.splits)

lemma faithful_Destroy:
  "call_Destroy m ctx poolID instID st = (err, st') \<Longrightarrow> faithful pk s m metrics st cl st' cl"
  by (rule faithful_step [where ev = "EvManagerDestroy ctx poolID instID err"])
     (auto simp add: call_Destroy_def emit_def split: prod.splits)

lemma faithful_Delete:
  "call_Delete s ctx sid st = (err, st') \<Longrightarrow> faithful pk s m metrics st cl st' cl"
  by (rule faithful_step [where ev = "EvStoreDelete ctx sid err"])
     (auto simp add: call_Delete_def emit_def split: prod.splits)

lemma faithful_GetClient:
  "call_GetClient pk inst n p mock t st = (res, st')
   \<Longrightarrow> faithful pk s m metrics st cl st'
         (case res of Inl err \<Rightarrow> None | Inr client \<Rightarrow> Some client)"
  by (rule faithful_step
        [where ev = "EvGetClient inst n p mock t
                       (case res of Inl err \<Rightarrow> Some err | Inr client \<Rightarrow> None)"])
     (auto simp add: call_GetClient_def emit_def split: prod.splits sum.splits)

lemma faithful_Client_Destroy:
  "call_Client_Destroy client ctx req st = ((resp, err), st')
   \<Longrightarrow> faithful pk s m metrics st (Some client) st' (Some client)"
  by (rule faithful_step [where ev = "EvClientDestroy ctx req resp err"])
     (auto simp add: call_Client_Destroy_def emit_def split: prod.splits)

lemma faithful_CPUPercentile:
  "faithful pk s m metrics st cl (call_CPUPercentile metrics lvs v st) cl"
  by (rule faithful_step [where ev = "EvObserveCPU lvs v"])
     (simp_all add: call_CPUPercentile_def emit_def)

lemma faithful_MemoryPercentile:
  "faithful pk s m metrics st cl (call_MemoryPercentile metrics lvs v st) cl"
  by (rule faithful_step [where ev = "EvObserveMemory lvs v"])
     (simp_all add: call_MemoryPercentile_def emit_def)

lemma faithful_envState_Delete:
  "faithful pk s m metrics st cl (call_envState_Delete pk sid st) cl"
  by (rule faithful_step [where ev = "EvEnvStateDelete sid"])
     (simp_all add: call_envState_Delete_def emit_def)

lemma faithful_Traceln: "faithful pk s m metrics st cl (Traceln logr msg st) cl"
  by (rule faithful_step [where ev = "EvLog TraceLevel msg logr"])
     (simp_all add: Traceln_def emit_def)

lemma faithful_Errorln: "faithful pk s m metrics st cl (Errorln logr msg st) cl"
  by (rule faithful_step [where ev = "EvLog ErrorLevel msg logr"])
     (simp_all add: Errorln_def emit_def)

lemma faithful_Tracef: "faithful pk s m metrics st cl (Tracef logr format args st) cl"
  by (rule faithful_step [where ev = "EvLogf TraceLevel format args logr"])
     (simp_all add: Tracef_def emit_def)

lemma liteEngineCleanup_faithful:
  "\<exists>cl'. faithful pk s m metrics st cl
           (liteEngineCleanup pk r env metrics poolID inst logr st) cl'"
proof -
  let ?req = "\<lparr>LogDrone = False, DestroyRequest_LogKey = LogKey r,
               LiteEnginePath = oshelp_GetLiteEngineLogsPath pk (OS inst)\<rparr>"
  obtain res st5 where gc: "call_GetClient pk inst (Runner_Name env) (Port inst)
             (LiteEngine_EnableMock env) (LiteEngine_MockStepTimeoutSecs env) st = (res, st5)"
    by (cases "call_GetClient pk inst (Runner_Name env) (Port inst)
             (LiteEngine_EnableMock env) (LiteEngine_MockStepTimeoutSecs env) st")
  note f5 = faithful_GetClient [OF gc, of s m metrics cl]
  show ?thesis
  proof (cases res)
    case (Inl e)
    have "liteEngineCleanup pk r env metrics poolID inst logr st
            = Errorln (WithError e logr)
                ''could not create lite engine client for invoking cleanup'' st5"
      by (simp add: liteEngineCleanup_def gc Inl)
    with faithful_trans [OF f5 faithful_Errorln] show ?thesis by (auto simp add: Inl)
  next
    case (Inr client)
    from f5 have f5': "faithful pk s m metrics st cl st5 (Some client)" by (simp add: Inr)
    obtain resp derr st5a where
      cd: "call_Client_Destroy client Background ?req st5 = ((resp, derr), st5a)"
      by (cases "call_Client_Destroy client Background ?req st5") auto
    note f5a = faithful_trans [OF f5' faithful_Client_Destroy [OF cd]]
    let ?st5b = "if derr \<noteq> None then
                   Errorln (WithError (the derr) logr)
                     ''could not invoke lite engine cleanup'' st5a
                 else st5a"
    have f5b: "faithful pk s m metrics st cl ?st5b (Some client)"
      using f5a faithful_trans [OF f5a faithful_Errorln] by simp
    show ?thesis
    proof (cases "resp \<noteq> None \<and> OSStats (the resp) \<noteq> None")
      case False
      then have "liteEngineCleanup pk r env metrics poolID inst logr st = ?st5b"
        by (auto simp add: liteEngineCleanup_def gc Inr cd Let_def)
      with f5b show ?thesis by auto
    next
      case True
      obtain c50 c70 c90 where
        cf: "usage_flags (MaxCPUUsagePct (the (OSStats (the resp)))) = (c50, c70, c90)"
        by (cases "usage_flags (MaxCPUUsagePct (the (OSStats (the resp))))") auto
      obtain m50 m70 m90 where
        mf: "usage_flags (MaxMemUsagePct (the (OSStats (the resp)))) = (m50, m70, m90)"
        by (cases "usage_flags (MaxMemUsagePct (the (OSStats (the resp))))") auto
      have "\<exists>lvs v lvs' v' lg format args.
              liteEngineCleanup pk r env metrics poolID inst logr st
              = Tracef lg format args
                  (call_MemoryPercentile metrics lvs' v'
                    (call_CPUPercentile metrics lvs v ?st5b))"
        using True by (simp add: liteEngineCleanup_def gc Inr cd cf mf Let_def) blast
      then obtain lvs v lvs' v' lg format args where
        eq: "liteEngineCleanup pk r env metrics poolID inst logr st
              = Tracef lg format args
                  (call_MemoryPercentile metrics lvs' v'
                    (call_CPUPercentile metrics lvs v ?st5b))"
        by blast
      have "faithful pk s m metrics st cl
              (Tracef lg format args
                  (call_MemoryPercentile metrics lvs' v'
                    (call_CPUPercentile metrics lvs v ?st5b))) (Some client)"
        by (rule faithful_trans [OF faithful_trans [OF faithful_trans
              [OF f5b faithful_CPUPercentile] faithful_MemoryPercentile] faithful_Tracef])
      with eq show ?thesis by auto
    qed
  qed
qed

lemma handleDestroy_faithful:
  assumes run: "handleDestroy pk ctx r s env poolManager metrics retryCount st = ((res, err), st')"
  shows "\<exists>cl'. faithful pk s poolManager metrics st None st' cl'"
proof -
  let ?sid = "StageRuntimeID r"
  obtain entity ferr st1 where F: "call_Find s ctx ?sid st = ((entity, ferr), st1)"
    by (cases "call_Find s ctx ?sid st") auto
  note f1 = faithful_Find [OF F, of pk poolManager metrics None]
  show ?thesis
  proof (cases "ferr \<noteq> None \<or> entity = None")
    case True
    with run F have "st' = st1" by (auto simp add: handleDestroy_def)
    with f1 show ?thesis by blast
  next
    case False
    then obtain ent where ent: "entity = Some ent" "ferr = None" by auto
    let ?lg = "AddContext pk
                 (WithField ''retry_count'' (LInt retryCount)
                   (WithField ''api'' (LStr ''dlite:destroy'')
                     (WithField ''pool'' (LStr (PoolName ent))
                       (WithField ''stage_runtime_id'' (LStr ?sid) []))))
                 (Context r)"
    let ?st2 = "Traceln ?lg ''starting the destroy process'' st1"
    obtain inst gerr st3 where
      G: "call_GetInstanceByStageID poolManager ctx (PoolName ent) ?sid ?st2 = ((inst, gerr), st3)"
      by (cases "call_GetInstanceByStageID poolManager ctx (PoolName ent) ?sid ?st2") auto
    note f3 = faithful_trans [OF faithful_trans [OF f1 faithful_Traceln]
                faithful_GetInstanceByStageID [OF G]]
    show ?thesis
    proof (cases "gerr \<noteq> None \<or> inst = None")
      case True
      with run F ent G have "st' = st3"
        by (auto simp add: handleDestroy_def Let_def split: if_splits)
      with f3 show ?thesis by blast
    next
      case False
      then obtain i where i: "inst = Some i" "gerr = None" by auto
      let ?lg' = "WithField ''instance_name'' (LStr (Name i))
                    (WithField ''instance_id'' (LStr (ID i)) ?lg)"
      let ?st4 = "Traceln ?lg' ''invoking lite engine cleanup'' st3"
      let ?st6 = "liteEngineCleanup pk r env metrics (PoolName ent) i ?lg' ?st4"
      let ?st7 = "Traceln ?lg'
                    ''successfully invoked lite engine cleanup, destroying instance'' ?st6"
      obtain derr st8 where
        D: "call_Destroy poolManager ctx (PoolName ent) (ID i) ?st7 = (derr, st8)"
        by (cases "call_Destroy poolManager ctx (PoolName ent) (ID i) ?st7") auto
      from liteEngineCleanup_faithful [of pk s poolManager metrics ?st4 None r env "PoolName ent" i ?lg']
      obtain cl6 where f46: "faithful pk s poolManager metrics ?st4 None ?st6 cl6" by blast
      note f8 = faithful_trans [OF faithful_trans [OF faithful_trans [OF faithful_trans
                  [OF f3 faithful_Traceln] f46] faithful_Traceln] faithful_Destroy [OF D]]
      show ?thesis
      proof (cases derr)
        case (Some e)
        with run F ent G i D have "st' = st8"
          by (auto simp add: handleDestroy_def Let_def)
        with f8 show ?thesis by blast
      next
        case None
        let ?st10 = "call_envState_Delete pk ?sid (Traceln ?lg' ''destroyed instance'' st8)"
        obtain serr st11 where S: "call_Delete s ctx ?sid ?st10 = (serr, st11)"
          by (cases "call_Delete s ctx ?sid ?st10") auto
        note f11 = faithful_trans [OF faithful_trans [OF faithful_trans
                     [OF f8 faithful_Traceln] faithful_envState_Delete] faithful_Delete [OF S]]
        from run F ent G i D None S have out:
          "st' = (if serr \<noteq> None then
                 Errorln (WithError (the serr) ?lg') ''failed to delete stage owner entity'' st11
               else st11)"
          by (auto simp add: handleDestroy_def Let_def)
        show ?thesis
        proof (cases serr)
          case None
          with out f11 show ?thesis by auto
        next
          case (Some e)
          with out faithful_trans [OF f11 faithful_Errorln] show ?thesis by auto
        qed
      qed
    qed
  qed
qed

lemma handleDestroy_replay:
  assumes "handleDestroy pk ctx r s env poolManager metrics retryCount st = ((res, err), st')"
  shows "\<exists>cl'. replay pk s poolManager metrics (new_events st st') (world st, None)
               = Some (world st', cl')"
  using handleDestroy_faithful [OF assms] faithful_new_events by blast

lemma replay_split:
  assumes "replay pk s m metrics (pre @ ev # post) x = Some y"
  obtains x1 x2 where
    "replay pk s m metrics pre x = Some x1"
    "replay_event pk s m metrics ev x1 = Some x2"
    "replay pk s m metrics post x2 = Some y"
  using assms by (auto simp add: replay_append split: option.splits)

lemma replay_at_Destroy:
  assumes "replay pk s m metrics (pre @ EvManagerDestroy ctx p i derr # post) x = Some y"
  obtains w cl w' where
    "replay pk s m metrics pre x = Some (w, cl)"
    "Destroy m ctx p i w = (derr, w')"
    "replay pk s m metrics post (w', cl) = Some y"
proof -
  from assms obtain x1 x2 where
    r: "replay pk s m metrics pre x = Some x1"
       "replay_event pk s m metrics (EvManagerDestroy ctx p i derr) x1 = Some x2"
       "replay pk s m metrics post x2 = Some y"
    by (rule replay_split)
  obtain w cl where x1: "x1 = (w, cl)" by (cases x1)
  from r(2) obtain w' where "Destroy m ctx p i w = (derr, w')" "x2 = (w', cl)"
    unfolding x1 by (auto split: prod.splits if_splits)
  with r(1,3) x1 show thesis by (auto intro: that)
qed

lemma replay_at_Client_Destroy:
  assumes "replay pk s m metrics (pre @ EvClientDestroy ctx req resp derr # post) x = Some y"
  obtains w client w' where
    "replay pk s m metrics pre x = Some (w, Some client)"
    "Client_Destroy client ctx req w = ((resp, derr), w')"
    "replay pk s m metrics post (w', Some client) = Some y"
proof -
  from assms obtain x1 x2 where
    r: "replay pk s m metrics pre x = Some x1"
       "replay_event pk s m metrics (EvClientDestroy ctx req resp derr) x1 = Some x2"
       "replay pk s m metrics post x2 = Some y"
    by (rule replay_split)
  obtain w cl where x1: "x1 = (w, cl)" by (cases x1)
  from r(2) obtain client w' where
    "cl = Some client" "Client_Destroy client ctx req w = ((resp, derr), w')"
    "x2 = (w', Some client)"
    unfolding x1 by (auto split: prod.splits if_splits option.splits)
  with r(1,3) x1 show thesis by (auto intro: that)
qed

lemma replay_at_Observe:
  assumes "replay pk s m metrics (pre @ EvObserveCPU lvs v # EvObserveMemory lvs' v' # post) x
             = Some y"
  obtains w cl where
    "replay pk s m metrics pre x = Some (w, cl)"
    "replay pk s m metrics post
       (MemoryPercentile metrics lvs' v' (CPUPercentile metrics lvs v w), cl) = Some y"
proof -
  from assms obtain x1 x2 where
    r: "replay pk s m metrics pre x = Some x1"
       "replay_event pk s m metrics (EvObserveCPU lvs v) x1 = Some x2"
       "replay pk s m metrics (EvObserveMemory lvs' v' # post) x2 = Some y"
    by (rule replay_split)
  obtain w cl where x1: "x1 = (w, cl)" by (cases x1)
  from r(2) have x2: "x2 = (CPUPercentile metrics lvs v w, cl)"
    unfolding x1 by simp
  from r(3) have "replay pk s m metrics post
       (MemoryPercentile metrics lvs' v' (CPUPercentile metrics lvs v w), cl) = Some y"
    unfolding x2 by simp
  with r(1) x1 show thesis by (auto intro: that)
qed

text \<open>
  C2. In every attempt that resolves an instance (the pool manager's lookup returns the
  instance \<open>inst\<close> and no error), whatever the lite-engine cleanup does, and so also
  when the client cannot be made or its \<^verbatim>\<open>Destroy\<close> returns an error: the log holds
  exactly one call of the pool manager's \<^verbatim>\<open>Destroy\<close>, after the lookup; that call is an
  application of \<^verbatim>\<open>Destroy\<close> to the caller's context, the pool of the lookup and the id
  of that instance, in the world \<open>w\<close> that the calls before it have made, and the calls
  after it lead from the world it returns to the final world. When it returns no error the
  attempt returns the instance and no error.
\<close>

theorem cleanup_failure_never_prevents_termination:
  assumes run: "handleDestroy pk ctx r s env poolManager metrics retryCount st = ((res, err), st')"
    and resolved: "EvGetInstanceByStageID c p sid (Some inst) None \<in> set (new_events st st')"
  shows "\<exists>derr pre post w cl w' cl'.
           filter is_ManagerDestroy (new_events st st') = [EvManagerDestroy ctx p (ID inst) derr]
           \<and> (derr = None \<longrightarrow> res = Some inst \<and> err = None)
           \<and> new_events st st' = pre @ EvManagerDestroy ctx p (ID inst) derr # post
           \<and> EvGetInstanceByStageID c p sid (Some inst) None \<in> set pre
           \<and> replay pk s poolManager metrics pre (world st, None) = Some (w, cl)
           \<and> Destroy poolManager ctx p (ID inst) w = (derr, w')
           \<and> replay pk s poolManager metrics post (w', cl) = Some (world st', cl')"
proof -
  from manager_destroy_once [OF run resolved] obtain derr where
    once: "filter is_ManagerDestroy (new_events st st') = [EvManagerDestroy ctx p (ID inst) derr]"
    and ok: "derr = None \<longrightarrow> res = Some inst \<and> err = None"
    by blast
  from handleDestroy_replay [OF run] obtain cl' where
    rp: "replay pk s poolManager metrics (new_events st st') (world st, None)
           = Some (world st', cl')"
    by blast
  have "\<exists>pre post. new_events st st' = pre @ EvManagerDestroy ctx p (ID inst) derr # post
          \<and> EvGetInstanceByStageID c p sid (Some inst) None \<in> set pre"
    using run
  proof (cases rule: handleDestroy_cases)
    case (find_failed entity ferr)
    with resolved show ?thesis by simp
  next
    case (lookup_failed ent inst gerr lg)
    with once show ?thesis by simp
  next
    case (destroy_failed ent i lg lg' st4 e)
    let ?gs = "new_events st4 (liteEngineCleanup pk r env metrics (PoolName ent) i lg' st4)"
    note gs = liteEngineCleanup_events [of _ st4 pk r env metrics "PoolName ent" i lg']
    from once destroy_failed(1) have ev:
      "EvManagerDestroy ctx (PoolName ent) (ID i) (Some e) = EvManagerDestroy ctx p (ID inst) derr"
      by (simp add: filter_cleanup [OF gs])
    from resolved destroy_failed(1) have g: "c = ctx" "sid = StageRuntimeID r" "inst = i"
      "p = PoolName ent"
      by (auto dest: gs)
    have "new_events st st' =
            ([EvFind ctx (StageRuntimeID r) (Some ent) None,
              EvLog TraceLevel ''starting the destroy process'' lg,
              EvGetInstanceByStageID ctx (PoolName ent) (StageRuntimeID r) (Some i) None,
              EvLog TraceLevel ''invoking lite engine cleanup'' lg'] @ ?gs
             @ [EvLog TraceLevel
                  ''successfully invoked lite engine cleanup, destroying instance'' lg'])
            @ EvManagerDestroy ctx p (ID inst) derr # []"
      unfolding destroy_failed(1) ev [symmetric] by simp
    moreover have "EvGetInstanceByStageID c p sid (Some inst) None
      \<in> set ([EvFind ctx (StageRuntimeID r) (Some ent) None,
              EvLog TraceLevel ''starting the destroy process'' lg,
              EvGetInstanceByStageID ctx (PoolName ent) (StageRuntimeID r) (Some i) None,
              EvLog TraceLevel ''invoking lite engine cleanup'' lg'] @ ?gs
             @ [EvLog TraceLevel
                  ''successfully invoked lite engine cleanup, destroying instance'' lg'])"
      unfolding g by simp
    ultimately show ?thesis by blast
  next
    case (destroyed ent i lg lg' st4 serr)
    let ?gs = "new_events st4 (liteEngineCleanup pk r env metrics (PoolName ent) i lg' st4)"
    let ?tail = "[EvLog TraceLevel ''destroyed instance'' lg',
            EvEnvStateDelete (StageRuntimeID r),
            EvStoreDelete ctx (StageRuntimeID r) serr]
         @ (case serr of None \<Rightarrow> []
            | Some e \<Rightarrow> [EvLog ErrorLevel ''failed to delete stage owner entity''
                           (WithError e lg')])"
    note gs = liteEngineCleanup_events [of _ st4 pk r env metrics "PoolName ent" i lg']
    from once destroyed(1) have ev:
      "EvManagerDestroy ctx (PoolName ent) (ID i) None = EvManagerDestroy ctx p (ID inst) derr"
      by (cases serr) (simp_all add: filter_cleanup [OF gs])
    from resolved destroyed(1) have g: "c = ctx" "sid = StageRuntimeID r" "inst = i"
      "p = PoolName ent"
      by (cases serr; auto dest: gs)+
    have "new_events st st' =
            ([EvFind ctx (StageRuntimeID r) (Some ent) None,
              EvLog TraceLevel ''starting the destroy process'' lg,
              EvGetInstanceByStageID ctx (PoolName ent) (StageRuntimeID r) (Some i) None,
              EvLog TraceLevel ''invoking lite engine cleanup'' lg'] @ ?gs
             @ [EvLog TraceLevel
                  ''successfully invoked lite engine cleanup, destroying instance'' lg'])
            @ EvManagerDestroy ctx p (ID inst) derr # ?tail"
      unfolding destroyed(1) ev [symmetric] by simp
    moreover have "EvGetInstanceByStageID c p sid (Some inst) None
      \<in> set ([EvFind ctx (StageRuntimeID r) (Some ent) None,
              EvLog TraceLevel ''starting the destroy process'' lg,
              EvGetInstanceByStageID ctx (PoolName ent) (StageRuntimeID r) (Some i) None,
              EvLog TraceLevel ''invoking lite engine cleanup'' lg'] @ ?gs
             @ [EvLog TraceLevel
                  ''successfully invoked lite engine cleanup, destroying instance'' lg'])"
      unfolding g by simp
    ultimately show ?thesis by blast
  qed
  then obtain pre post where
    shape: "new_events st st' = pre @ EvManagerDestroy ctx p (ID inst) derr # post"
    and before: "EvGetInstanceByStageID c p sid (Some inst) None \<in> set pre"
    by blast
  from rp [unfolded shape] obtain w cl w' where
    "replay pk s poolManager metrics pre (world st, None) = Some (w, cl)"
    "Destroy poolManager ctx p (ID inst) w = (derr, w')"
    "replay pk s poolManager metrics post (w', cl) = Some (world st', cl')"
    by (rule replay_at_Destroy)
  with once ok shape before show ?thesis by blast
qed

theorem cleanup_failure_never_prevents_termination_witness:
  "EvGetInstanceByStageID (CallerContext 1 False) ''linux-pool'' ''stage-1'' (Some stub_instance) None
     \<in> set (new_events rec_state
              (snd (rec_run (CallerContext 1 False)
                      (Inr (rec_client (None, Some (Err ''agent unreachable'')))) None)))
   \<and> world (snd (rec_run (CallerContext 1 False)
                    (Inr (rec_client (None, Some (Err ''agent unreachable'')))) None))
     = [EvFind (CallerContext 1 False) ''stage-1'' (Some stub_owner) None,
        EvGetInstanceByStageID (CallerContext 1 False) ''linux-pool'' ''stage-1''
          (Some stub_instance) None,
        EvGetClient stub_instance ''runner'' 9079 False 0 None,
        EvClientDestroy Background
          \<lparr>LogDrone = False, DestroyRequest_LogKey = ''key'',
           LiteEnginePath = ''/var/log/lite-engine/linux''\<rparr> None (Some (Err ''agent unreachable'')),
        EvManagerDestroy (CallerContext 1 False) ''linux-pool'' ''i-0abc'' None,
        EvEnvStateDelete ''stage-1'',
        EvStoreDelete (CallerContext 1 False) ''stage-1'' None]
   \<and> filter is_ManagerDestroy
       (new_events rec_state
          (snd (rec_run (CallerContext 1 False)
                  (Inr (rec_client (None, Some (Err ''agent unreachable'')))) None)))
     = [EvManagerDestroy (CallerContext 1 False) ''linux-pool'' ''i-0abc'' None]
   \<and> fst (rec_run (CallerContext 1 False)
            (Inr (rec_client (None, Some (Err ''agent unreachable'')))) None)
     = (Some stub_instance, None)"
proof -
  define run where
    "run = rec_run (CallerContext 1 False)
             (Inr (rec_client (None, Some (Err ''agent unreachable'')))) None"
  have run: "handleDestroy
       (rec_packages (Inr (rec_client (None, Some (Err ''agent unreachable'')))))
       (CallerContext 1 False) stub_request (rec_store (Some stub_owner, None) None) stub_env
       (rec_manager (Some stub_instance, None) None) rec_metrics 0 rec_state
       = ((fst (fst run), snd (fst run)), snd run)"
    by (simp add: run_def rec_run_def)
  have resolved: "EvGetInstanceByStageID (CallerContext 1 False) ''linux-pool'' ''stage-1''
       (Some stub_instance) None \<in> set (new_events rec_state (snd run))"
    by (simp add: run_def rec_defs eval_defs)
  have received: "world (snd run)
     = [EvFind (CallerContext 1 False) ''stage-1'' (Some stub_owner) None,
        EvGetInstanceByStageID (CallerContext 1 False) ''linux-pool'' ''stage-1''
          (Some stub_instance) None,
        EvGetClient stub_instance ''runner'' 9079 False 0 None,
        EvClientDestroy Background
          \<lparr>LogDrone = False, DestroyRequest_LogKey = ''key'',
           LiteEnginePath = ''/var/log/lite-engine/linux''\<rparr> None (Some (Err ''agent unreachable'')),
        EvManagerDestroy (CallerContext 1 False) ''linux-pool'' ''i-0abc'' None,
        EvEnvStateDelete ''stage-1'',
        EvStoreDelete (CallerContext 1 False) ''stage-1'' None]"
    by (simp add: run_def rec_defs eval_defs)
  have ok: "EvManagerDestroy (CallerContext 1 False) ''linux-pool'' ''i-0abc'' None
     \<in> set (new_events rec_state (snd run))"
    by (simp add: run_def rec_defs eval_defs)
  from cleanup_failure_never_prevents_termination [OF run resolved]
  obtain derr where
    d: "filter is_ManagerDestroy (new_events rec_state (snd run))
          = [EvManagerDestroy (CallerContext 1 False) ''linux-pool'' (ID stub_instance) derr]"
       "derr = None \<longrightarrow> fst (fst run) = Some stub_instance \<and> snd (fst run) = None"
    by blast
  from ok have "EvManagerDestroy (CallerContext 1 False) ''linux-pool'' ''i-0abc'' None
     \<in> set (filter is_ManagerDestroy (new_events rec_state (snd run)))"
    by simp
  with d(1) have "derr = None" by simp
  with d resolved received show ?thesis
    unfolding run_def [symmetric] by (simp add: stub_instance_def prod_eq_iff)
qed

text \<open>
  C6. In every attempt in which the pool manager's \<^verbatim>\<open>Destroy\<close> returns no error, the log
  ends with that call, the trace line, the registry deletion for the stage id, the record
  deletion for the stage id, and, only when the record deletion returned an error, one
  error line; nothing before the \<^verbatim>\<open>Destroy\<close> is a deletion. In the world: \<^verbatim>\<open>Destroy\<close>
  is applied in the world \<open>w\<close> the earlier calls have made and returns \<open>w1\<close>; the registry's
  \<^verbatim>\<open>Delete\<close> is applied to \<open>w1\<close>, the store's \<^verbatim>\<open>Delete\<close> to the world after that, and
  the world it returns is the final one. The attempt returns the instance found by the
  lookup and no error, whatever the record deletion returned.
\<close>

theorem retirement_order_after_termination:
  assumes run: "handleDestroy pk ctx r s env poolManager metrics retryCount st = ((res, err), st')"
    and terminated: "EvManagerDestroy c p i None \<in> set (new_events st st')"
  shows "\<exists>inst pre lg derr w cl w1.
           new_events st st' =
             pre @ [EvManagerDestroy ctx p (ID inst) None,
                    EvLog TraceLevel ''destroyed instance'' lg,
                    EvEnvStateDelete (StageRuntimeID r),
                    EvStoreDelete ctx (StageRuntimeID r) derr]
                 @ (case derr of None \<Rightarrow> []
                    | Some e \<Rightarrow> [EvLog ErrorLevel ''failed to delete stage owner entity''
                                   (WithError e lg)])
           \<and> EvGetInstanceByStageID ctx p (StageRuntimeID r) (Some inst) None \<in> set pre
           \<and> filter is_retirement pre = []
           \<and> i = ID inst \<and> res = Some inst \<and> err = None
           \<and> replay pk s poolManager metrics pre (world st, None) = Some (w, cl)
           \<and> Destroy poolManager ctx p (ID inst) w = (None, w1)
           \<and> Delete s ctx (StageRuntimeID r) (envState_Delete pk (StageRuntimeID r) w1)
               = (derr, world st')"
proof -
  from retirement_log_shape [OF run terminated] obtain inst pre lg derr where
    shape: "new_events st st' =
             pre @ [EvManagerDestroy ctx p (ID inst) None,
                    EvLog TraceLevel ''destroyed instance'' lg,
                    EvEnvStateDelete (StageRuntimeID r),
                    EvStoreDelete ctx (StageRuntimeID r) derr]
                 @ (case derr of None \<Rightarrow> []
                    | Some e \<Rightarrow> [EvLog ErrorLevel ''failed to delete stage owner entity''
                                   (WithError e lg)])"
    and rest: "EvGetInstanceByStageID ctx p (StageRuntimeID r) (Some inst) None \<in> set pre"
      "filter is_retirement pre = []" "i = ID inst" "res = Some inst" "err = None"
    by blast
  let ?post = "[EvLog TraceLevel ''destroyed instance'' lg,
                EvEnvStateDelete (StageRuntimeID r),
                EvStoreDelete ctx (StageRuntimeID r) derr]
               @ (case derr of None \<Rightarrow> []
                  | Some e \<Rightarrow> [EvLog ErrorLevel ''failed to delete stage owner entity''
                                 (WithError e lg)])"
  from handleDestroy_replay [OF run] obtain cl' where
    "replay pk s poolManager metrics (new_events st st') (world st, None)
       = Some (world st', cl')"
    by blast
  then have "replay pk s poolManager metrics
               (pre @ EvManagerDestroy ctx p (ID inst) None # ?post) (world st, None)
             = Some (world st', cl')"
    unfolding shape by simp
  then obtain w cl w1 where
    a: "replay pk s poolManager metrics pre (world st, None) = Some (w, cl)"
       "Destroy poolManager ctx p (ID inst) w = (None, w1)"
    and b: "replay pk s poolManager metrics ?post (w1, cl) = Some (world st', cl')"
    by (rule replay_at_Destroy)
  from b have "Delete s ctx (StageRuntimeID r) (envState_Delete pk (StageRuntimeID r) w1)
                 = (derr, world st')"
    by (cases derr) (auto split: prod.splits if_splits)
  with shape rest a show ?thesis by blast
qed

theorem retirement_order_after_termination_witness:
  "EvManagerDestroy (CallerContext 1 False) ''linux-pool'' ''i-0abc'' None
     \<in> set (new_events rec_state
              (snd (rec_run (CallerContext 1 False) (Inl (Err ''no route to host''))
                      (Some (Err ''database is locked'')))))
   \<and> world (snd (rec_run (CallerContext 1 False) (Inl (Err ''no route to host''))
                    (Some (Err ''database is locked''))))
     = [EvFind (CallerContext 1 False) ''stage-1'' (Some stub_owner) None,
        EvGetInstanceByStageID (CallerContext 1 False) ''linux-pool'' ''stage-1''
          (Some stub_instance) None,
        EvGetClient stub_instance ''runner'' 9079 False 0 (Some (Err ''no route to host'')),
        EvManagerDestroy (CallerContext 1 False) ''linux-pool'' ''i-0abc'' None,
        EvEnvStateDelete ''stage-1'',
        EvStoreDelete (CallerContext 1 False) ''stage-1'' (Some (Err ''database is locked''))]
   \<and> fst (rec_run (CallerContext 1 False) (Inl (Err ''no route to host''))
            (Some (Err ''database is locked'')))
     = (Some stub_instance, None)"
proof -
  define run where
    "run = rec_run (CallerContext 1 False) (Inl (Err ''no route to host''))
             (Some (Err ''database is locked''))"
  have run: "handleDestroy (rec_packages (Inl (Err ''no route to host'')))
       (CallerContext 1 False) stub_request
       (rec_store (Some stub_owner, None) (Some (Err ''database is locked''))) stub_env
       (rec_manager (Some stub_instance, None) None) rec_metrics 0 rec_state
       = ((fst (fst run), snd (fst run)), snd run)"
    by (simp add: run_def rec_run_def)
  have terminated: "EvManagerDestroy (CallerContext 1 False) ''linux-pool'' ''i-0abc'' None
     \<in> set (new_events rec_state (snd run))"
    by (simp add: run_def rec_defs eval_defs)
  have received: "world (snd run)
     = [EvFind (CallerContext 1 False) ''stage-1'' (Some stub_owner) None,
        EvGetInstanceByStageID (CallerContext 1 False) ''linux-pool'' ''stage-1''
          (Some stub_instance) None,
        EvGetClient stub_instance ''runner'' 9079 False 0 (Some (Err ''no route to host'')),
        EvManagerDestroy (CallerContext 1 False) ''linux-pool'' ''i-0abc'' None,
        EvEnvStateDelete ''stage-1'',
        EvStoreDelete (CallerContext 1 False) ''stage-1'' (Some (Err ''database is locked''))]"
    by (simp add: run_def rec_defs eval_defs)
  have found: "fst (fst run) = Some stub_instance"
    by (simp add: run_def rec_defs eval_defs)
  from retirement_order_after_termination [OF run terminated]
  have "snd (fst run) = None" by blast
  with terminated received found show ?thesis
    unfolding run_def [symmetric] by (simp add: prod_eq_iff)
qed

lemma map_filter_singleton:
  "List.map_filter f xs = [y] \<Longrightarrow> \<exists>x \<in> set xs. f x = Some y"
  by (induction xs) (auto simp add: List.map_filter_simps split: option.splits)

lemma client_application_of_attempt:
  assumes run: "handleDestroy pk ctx r s env poolManager metrics retryCount st = ((res, err), st')"
    and reached: "EvGetClient inst a b c d None \<in> set (new_events st st')"
  shows "\<exists>pre post w client resp derr w'.
           new_events st st' =
             pre @ EvClientDestroy Background
                     \<lparr>LogDrone = False, DestroyRequest_LogKey = LogKey r,
                      LiteEnginePath = oshelp_GetLiteEngineLogsPath pk (OS inst)\<rparr> resp derr
                 # post
           \<and> replay pk s poolManager metrics pre (world st, None) = Some (w, Some client)
           \<and> Client_Destroy client Background
                \<lparr>LogDrone = False, DestroyRequest_LogKey = LogKey r,
                 LiteEnginePath = oshelp_GetLiteEngineLogsPath pk (OS inst)\<rparr> w
               = ((resp, derr), w')"
proof -
  let ?req = "\<lparr>LogDrone = False, DestroyRequest_LogKey = LogKey r,
               LiteEnginePath = oshelp_GetLiteEngineLogsPath pk (OS inst)\<rparr>"
  from map_filter_singleton [OF client_calls_of_attempt [OF run reached]] obtain ev where
    ev: "ev \<in> set (new_events st st')" "client_call ev = Some (Background, ?req)"
    by blast
  from ev(2) obtain resp derr where "ev = EvClientDestroy Background ?req resp derr"
    by (cases ev) auto
  with ev(1) obtain pre post where
    shape: "new_events st st' = pre @ EvClientDestroy Background ?req resp derr # post"
    by (auto dest: split_list)
  from handleDestroy_replay [OF run] obtain cl' where
    "replay pk s poolManager metrics (new_events st st') (world st, None)
       = Some (world st', cl')"
    by blast
  then obtain w client w' where
    "replay pk s poolManager metrics pre (world st, None) = Some (w, Some client)"
    "Client_Destroy client Background ?req w = ((resp, derr), w')"
    unfolding shape by (rule replay_at_Client_Destroy)
  with shape show ?thesis by blast
qed

text \<open>
  C9. Two attempts for the same request, under any two caller contexts \<open>ctx1\<close> and
  \<open>ctx2\<close> (cancelled or not), from any two states and with any retry counts, that both
  get a client for the instance \<open>inst\<close>: each calls the client's \<^verbatim>\<open>Destroy\<close> exactly
  once, and the two calls have the same context and the same arguments. In each attempt
  the call is an application of the \<^verbatim>\<open>Destroy\<close> of the client in hand (the one
  \<^verbatim>\<open>lehelper.GetClient\<close> returned) to \<^verbatim>\<open>context.Background()\<close> and to the request made of
  \<^verbatim>\<open>LogDrone: false\<close>, the log key of the cleanup request and the log path for the
  instance's OS, in the world the earlier calls have made; neither \<open>ctx1\<close> nor \<open>ctx2\<close>
  reaches the client.
\<close>

theorem client_destroy_independent_of_caller_context:
  assumes run1: "handleDestroy pk ctx1 r s env poolManager metrics n1 st1 = (out1, st1')"
    and run2: "handleDestroy pk ctx2 r s env poolManager metrics n2 st2 = (out2, st2')"
    and reached1: "EvGetClient inst a1 b1 c1 d1 None \<in> set (new_events st1 st1')"
    and reached2: "EvGetClient inst a2 b2 c2 d2 None \<in> set (new_events st2 st2')"
  shows "List.map_filter client_call (new_events st1 st1')
           = [(Background, \<lparr>LogDrone = False, DestroyRequest_LogKey = LogKey r,
                 LiteEnginePath = oshelp_GetLiteEngineLogsPath pk (OS inst)\<rparr>)]
         \<and> List.map_filter client_call (new_events st2 st2')
           = List.map_filter client_call (new_events st1 st1')
         \<and> (\<exists>pre post w client resp derr w'.
               new_events st1 st1' =
                 pre @ EvClientDestroy Background
                         \<lparr>LogDrone = False, DestroyRequest_LogKey = LogKey r,
                          LiteEnginePath = oshelp_GetLiteEngineLogsPath pk (OS inst)\<rparr> resp derr
                     # post
               \<and> replay pk s poolManager metrics pre (world st1, None) = Some (w, Some client)
               \<and> Client_Destroy client Background
                    \<lparr>LogDrone = False, DestroyRequest_LogKey = LogKey r,
                     LiteEnginePath = oshelp_GetLiteEngineLogsPath pk (OS inst)\<rparr> w
                   = ((resp, derr), w'))
         \<and> (\<exists>pre post w client resp derr w'.
               new_events st2 st2' =
                 pre @ EvClientDestroy Background
                         \<lparr>LogDrone = False, DestroyRequest_LogKey = LogKey r,
                          LiteEnginePath = oshelp_GetLiteEngineLogsPath pk (OS inst)\<rparr> resp derr
                     # post
               \<and> replay pk s poolManager metrics pre (world st2, None) = Some (w, Some client)
               \<and> Client_Destroy client Background
                    \<lparr>LogDrone = False, DestroyRequest_LogKey = LogKey r,
                     LiteEnginePath = oshelp_GetLiteEngineLogsPath pk (OS inst)\<rparr> w
                   = ((resp, derr), w'))"
proof -
  obtain res1 err1 where o1: "out1 = (res1, err1)" by (cases out1)
  obtain res2 err2 where o2: "out2 = (res2, err2)" by (cases out2)
  note calls1 = client_calls_of_attempt [OF run1 [unfolded o1] reached1]
  note calls2 = client_calls_of_attempt [OF run2 [unfolded o2] reached2]
  note app1 = client_application_of_attempt [OF run1 [unfolded o1] reached1]
  note app2 = client_application_of_attempt [OF run2 [unfolded o2] reached2]
  show ?thesis
    by (intro conjI) (simp_all only: calls1 calls2 app1 app2)
qed

theorem client_destroy_independent_of_caller_context_witness:
  "EvGetClient stub_instance ''runner'' 9079 False 0 None
     \<in> set (new_events rec_state
              (snd (rec_run (CallerContext 1 True)
                      (Inr (rec_client (Some \<lparr>OSStats = Some stub_stats\<rparr>, None))) None)))
   \<and> EvGetClient stub_instance ''runner'' 9079 False 0 None
     \<in> set (new_events rec_state
              (snd (rec_run Background
                      (Inr (rec_client (Some \<lparr>OSStats = Some stub_stats\<rparr>, None))) None)))
   \<and> List.map_filter client_call
       (world (snd (rec_run (CallerContext 1 True)
                      (Inr (rec_client (Some \<lparr>OSStats = Some stub_stats\<rparr>, None))) None)))
     = [(Background, \<lparr>LogDrone = False, DestroyRequest_LogKey = ''key'',
                      LiteEnginePath = ''/var/log/lite-engine/linux''\<rparr>)]
   \<and> List.map_filter client_call
       (world (snd (rec_run Background
                      (Inr (rec_client (Some \<lparr>OSStats = Some stub_stats\<rparr>, None))) None)))
     = [(Background, \<lparr>LogDrone = False, DestroyRequest_LogKey = ''key'',
                      LiteEnginePath = ''/var/log/lite-engine/linux''\<rparr>)]
   \<and> List.map_filter client_call
       (new_events rec_state
          (snd (rec_run Background
                  (Inr (rec_client (Some \<lparr>OSStats = Some stub_stats\<rparr>, None))) None)))
     = List.map_filter client_call
         (new_events rec_state
            (snd (rec_run (CallerContext 1 True)
                    (Inr (rec_client (Some \<lparr>OSStats = Some stub_stats\<rparr>, None))) None)))"
proof -
  define run1 where
    "run1 = rec_run (CallerContext 1 True)
              (Inr (rec_client (Some \<lparr>OSStats = Some stub_stats\<rparr>, None))) None"
  define run2 where
    "run2 = rec_run Background
              (Inr (rec_client (Some \<lparr>OSStats = Some stub_stats\<rparr>, None))) None"
  have r1: "handleDestroy
       (rec_packages (Inr (rec_client (Some \<lparr>OSStats = Some stub_stats\<rparr>, None))))
       (CallerContext 1 True) stub_request (rec_store (Some stub_owner, None) None) stub_env
       (rec_manager (Some stub_instance, None) None) rec_metrics 0 rec_state
       = (fst run1, snd run1)"
    by (simp add: run1_def rec_run_def)
  have r2: "handleDestroy
       (rec_packages (Inr (rec_client (Some \<lparr>OSStats = Some stub_stats\<rparr>, None))))
       Background stub_request (rec_store (Some stub_owner, None) None) stub_env
       (rec_manager (Some stub_instance, None) None) rec_metrics 0 rec_state
       = (fst run2, snd run2)"
    by (simp add: run2_def rec_run_def)
  have reached1: "EvGetClient stub_instance ''runner'' 9079 False 0 None
     \<in> set (new_events rec_state (snd run1))"
    by (simp add: run1_def rec_defs eval_defs)
  have reached2: "EvGetClient stub_instance ''runner'' 9079 False 0 None
     \<in> set (new_events rec_state (snd run2))"
    by (simp add: run2_def rec_defs eval_defs)
  have received1: "List.map_filter client_call (world (snd run1))
     = [(Background, \<lparr>LogDrone = False, DestroyRequest_LogKey = ''key'',
                      LiteEnginePath = ''/var/log/lite-engine/linux''\<rparr>)]"
    by (simp add: run1_def rec_defs eval_defs List.map_filter_simps)
  have received2: "List.map_filter client_call (world (snd run2))
     = [(Background, \<lparr>LogDrone = False, DestroyRequest_LogKey = ''key'',
                      LiteEnginePath = ''/var/log/lite-engine/linux''\<rparr>)]"
    by (simp add: run2_def rec_defs eval_defs List.map_filter_simps)
  from client_destroy_independent_of_caller_context [OF r1 r2 reached1 reached2]
  have "List.map_filter client_call (new_events rec_state (snd run2))
          = List.map_filter client_call (new_events rec_state (snd run1))"
    by blast
  with reached1 reached2 received1 received2 show ?thesis
    unfolding run1_def [symmetric] run2_def [symmetric] by simp
qed

lemma cleanup_observe_shape:
  assumes "EvClientDestroy c req (Some resp) derr
             \<in> set (new_events st (liteEngineCleanup pk r env metrics poolID inst logr st))"
    and "OSStats resp = Some stats"
  shows "\<exists>pre post.
           new_events st (liteEngineCleanup pk r env metrics poolID inst logr st) =
             pre @ EvObserveCPU [poolID, OS inst, Arch inst, Provider inst] (MaxCPUUsagePct stats)
                 # EvObserveMemory [poolID, OS inst, Arch inst, Provider inst]
                     (MaxMemUsagePct stats)
                 # post"
proof (cases rule: liteEngineCleanup_cases [of pk r env metrics poolID inst logr st])
  case (no_client e)
  with assms show ?thesis by (simp add: new_events_def)
next
  case (no_stats resp' derr')
  with assms show ?thesis by (auto simp add: new_events_def split: option.splits)
next
  case (stats resp' derr' stats' format args lg)
  let ?errlog = "case derr' of None \<Rightarrow> []
               | Some e \<Rightarrow> [EvLog ErrorLevel ''could not invoke lite engine cleanup''
                              (WithError e logr)]"
  from assms(1) stats(2) have "resp' = resp"
    by (auto simp add: new_events_def split: option.splits)
  with assms(2) stats(1) have same: "stats' = stats" by simp
  have "new_events st (liteEngineCleanup pk r env metrics poolID inst logr st) =
          ([EvGetClient inst (Runner_Name env) (Port inst) (LiteEngine_EnableMock env)
               (LiteEngine_MockStepTimeoutSecs env) None,
             EvClientDestroy Background
               \<lparr>LogDrone = False, DestroyRequest_LogKey = LogKey r,
                LiteEnginePath = oshelp_GetLiteEngineLogsPath pk (OS inst)\<rparr> (Some resp') derr']
            @ ?errlog)
          @ EvObserveCPU [poolID, OS inst, Arch inst, Provider inst] (MaxCPUUsagePct stats)
          # EvObserveMemory [poolID, OS inst, Arch inst, Provider inst] (MaxMemUsagePct stats)
          # [EvLogf TraceLevel format args lg]"
    using stats(2) unfolding same by (simp add: new_events_def)
  then show ?thesis by blast
qed

lemma attempt_observe_shape:
  assumes run: "handleDestroy pk ctx r s env poolManager metrics retryCount st = ((res, err), st')"
    and called: "EvClientDestroy c req (Some resp) derr \<in> set (new_events st st')"
    and stats: "OSStats resp = Some stats"
    and found: "EvFind ctx (StageRuntimeID r) (Some ent) None \<in> set (new_events st st')"
    and looked: "EvGetInstanceByStageID ctx (PoolName ent) (StageRuntimeID r) (Some inst) None
                   \<in> set (new_events st st')"
  shows "\<exists>pre post.
           new_events st st' =
             pre @ EvObserveCPU [PoolName ent, OS inst, Arch inst, Provider inst]
                     (MaxCPUUsagePct stats)
                 # EvObserveMemory [PoolName ent, OS inst, Arch inst, Provider inst]
                     (MaxMemUsagePct stats)
                 # post"
  using run
proof (cases rule: handleDestroy_cases)
  case (find_failed entity ferr)
  with called show ?thesis by simp
next
  case (lookup_failed ent' inst' gerr lg)
  with called show ?thesis by simp
next
  case (destroy_failed ent' i lg lg' st4 e)
  let ?gs = "new_events st4 (liteEngineCleanup pk r env metrics (PoolName ent') i lg' st4)"
  note gs = liteEngineCleanup_events [of _ st4 pk r env metrics "PoolName ent'" i lg']
  from found looked destroy_failed(1) have same: "ent' = ent" "i = inst"
    by (auto dest: gs)
  from called destroy_failed(1) have "EvClientDestroy c req (Some resp) derr \<in> set ?gs"
    by simp
  from cleanup_observe_shape [OF this stats] obtain pre post where
    "?gs = pre @ EvObserveCPU [PoolName ent', OS i, Arch i, Provider i] (MaxCPUUsagePct stats)
               # EvObserveMemory [PoolName ent', OS i, Arch i, Provider i]
                   (MaxMemUsagePct stats)
               # post"
    by blast
  then have "new_events st st' =
      ([EvFind ctx (StageRuntimeID r) (Some ent') None,
          EvLog TraceLevel ''starting the destroy process'' lg,
          EvGetInstanceByStageID ctx (PoolName ent') (StageRuntimeID r) (Some i) None,
          EvLog TraceLevel ''invoking lite engine cleanup'' lg'] @ pre)
      @ EvObserveCPU [PoolName ent', OS i, Arch i, Provider i] (MaxCPUUsagePct stats)
      # EvObserveMemory [PoolName ent', OS i, Arch i, Provider i] (MaxMemUsagePct stats)
      # (post @ [EvLog TraceLevel
                   ''successfully invoked lite engine cleanup, destroying instance'' lg',
                 EvManagerDestroy ctx (PoolName ent') (ID i) (Some e)])"
    unfolding destroy_failed(1) by simp
  then show ?thesis unfolding same by blast
next
  case (destroyed ent' i lg lg' st4 serr)
  let ?gs = "new_events st4 (liteEngineCleanup pk r env metrics (PoolName ent') i lg' st4)"
  let ?tail = "[EvLog TraceLevel ''successfully invoked lite engine cleanup, destroying instance'' lg',
            EvManagerDestroy ctx (PoolName ent') (ID i) None,
            EvLog TraceLevel ''destroyed instance'' lg',
            EvEnvStateDelete (StageRuntimeID r),
            EvStoreDelete ctx (StageRuntimeID r) serr]
         @ (case serr of None \<Rightarrow> []
            | Some e \<Rightarrow> [EvLog ErrorLevel ''failed to delete stage owner entity''
                           (WithError e lg')])"
  note gs = liteEngineCleanup_events [of _ st4 pk r env metrics "PoolName ent'" i lg']
  from found looked destroyed(1) have same: "ent' = ent" "i = inst"
    by (cases serr; auto dest: gs)+
  from called destroyed(1) have "EvClientDestroy c req (Some resp) derr \<in> set ?gs"
    by (cases serr) simp_all
  from cleanup_observe_shape [OF this stats] obtain pre post where
    "?gs = pre @ EvObserveCPU [PoolName ent', OS i, Arch i, Provider i] (MaxCPUUsagePct stats)
               # EvObserveMemory [PoolName ent', OS i, Arch i, Provider i]
                   (MaxMemUsagePct stats)
               # post"
    by blast
  then have "new_events st st' =
      ([EvFind ctx (StageRuntimeID r) (Some ent') None,
          EvLog TraceLevel ''starting the destroy process'' lg,
          EvGetInstanceByStageID ctx (PoolName ent') (StageRuntimeID r) (Some i) None,
          EvLog TraceLevel ''invoking lite engine cleanup'' lg'] @ pre)
      @ EvObserveCPU [PoolName ent', OS i, Arch i, Provider i] (MaxCPUUsagePct stats)
      # EvObserveMemory [PoolName ent', OS i, Arch i, Provider i] (MaxMemUsagePct stats)
      # (post @ ?tail)"
    unfolding destroyed(1) by simp
  then show ?thesis unfolding same by blast
qed

text \<open>
  C10. The log of every attempt is a faithful record of what was applied to the world.
  When the client's \<^verbatim>\<open>Destroy\<close> returned a response with \<^verbatim>\<open>OSStats\<close>, with or without
  an error beside it, the CPU vector and the memory vector are each observed exactly once:
  the CPU vector is applied to the labels (pool name of the stage owner, OS, architecture
  and provider of the instance) and the maximal CPU percentage, in the world \<open>w\<close> the
  earlier calls have made, then the memory vector to the same labels and the maximal
  memory percentage, and the later calls start from the world the two leave. When no call
  of the client returned a response with \<^verbatim>\<open>OSStats\<close>, neither vector is observed.
\<close>

theorem stats_observed_once_with_labels:
  assumes run: "handleDestroy pk ctx r s env poolManager metrics retryCount st = ((res, err), st')"
  shows "(\<exists>cl'. replay pk s poolManager metrics (new_events st st') (world st, None)
                 = Some (world st', cl'))
         \<and> (\<forall>c req resp derr stats.
            EvClientDestroy c req (Some resp) derr \<in> set (new_events st st')
            \<and> OSStats resp = Some stats \<longrightarrow>
              (\<exists>ent inst pre post w cl cl'.
                 EvFind ctx (StageRuntimeID r) (Some ent) None \<in> set (new_events st st')
                 \<and> EvGetInstanceByStageID ctx (PoolName ent) (StageRuntimeID r) (Some inst) None
                     \<in> set (new_events st st')
                 \<and> filter is_ObserveCPU (new_events st st')
                     = [EvObserveCPU [PoolName ent, OS inst, Arch inst, Provider inst]
                          (MaxCPUUsagePct stats)]
                 \<and> filter is_ObserveMemory (new_events st st')
                     = [EvObserveMemory [PoolName ent, OS inst, Arch inst, Provider inst]
                          (MaxMemUsagePct stats)]
                 \<and> new_events st st'
                     = pre @ EvObserveCPU [PoolName ent, OS inst, Arch inst, Provider inst]
                               (MaxCPUUsagePct stats)
                           # EvObserveMemory [PoolName ent, OS inst, Arch inst, Provider inst]
                               (MaxMemUsagePct stats)
                           # post
                 \<and> replay pk s poolManager metrics pre (world st, None) = Some (w, cl)
                 \<and> replay pk s poolManager metrics post
                     (MemoryPercentile metrics [PoolName ent, OS inst, Arch inst, Provider inst]
                        (MaxMemUsagePct stats)
                        (CPUPercentile metrics [PoolName ent, OS inst, Arch inst, Provider inst]
                           (MaxCPUUsagePct stats) w), cl)
                     = Some (world st', cl')))
         \<and> ((\<forall>c req resp derr. EvClientDestroy c req resp derr \<in> set (new_events st st') \<longrightarrow>
                resp = None \<or> OSStats (the resp) = None) \<longrightarrow>
              filter is_ObserveCPU (new_events st st') = []
              \<and> filter is_ObserveMemory (new_events st st') = [])"
proof (intro conjI allI impI)
  show "\<exists>cl'. replay pk s poolManager metrics (new_events st st') (world st, None)
                 = Some (world st', cl')"
    by (rule handleDestroy_replay [OF run])
next
  fix c req resp derr stats
  assume h: "EvClientDestroy c req (Some resp) derr \<in> set (new_events st st')
            \<and> OSStats resp = Some stats"
  from stats_events [OF run, THEN conjunct1, rule_format, OF h]
  obtain ent inst where
    e: "EvFind ctx (StageRuntimeID r) (Some ent) None \<in> set (new_events st st')"
       "EvGetInstanceByStageID ctx (PoolName ent) (StageRuntimeID r) (Some inst) None
          \<in> set (new_events st st')"
       "filter is_ObserveCPU (new_events st st')
          = [EvObserveCPU [PoolName ent, OS inst, Arch inst, Provider inst]
               (MaxCPUUsagePct stats)]"
       "filter is_ObserveMemory (new_events st st')
          = [EvObserveMemory [PoolName ent, OS inst, Arch inst, Provider inst]
               (MaxMemUsagePct stats)]"
    by blast
  from attempt_observe_shape [OF run h [THEN conjunct1] h [THEN conjunct2] e(1,2)]
  obtain pre post where
    shape: "new_events st st'
              = pre @ EvObserveCPU [PoolName ent, OS inst, Arch inst, Provider inst]
                        (MaxCPUUsagePct stats)
                    # EvObserveMemory [PoolName ent, OS inst, Arch inst, Provider inst]
                        (MaxMemUsagePct stats)
                    # post"
    by blast
  from handleDestroy_replay [OF run] obtain cl' where
    "replay pk s poolManager metrics (new_events st st') (world st, None)
       = Some (world st', cl')"
    by blast
  then obtain w cl where
    "replay pk s poolManager metrics pre (world st, None) = Some (w, cl)"
    "replay pk s poolManager metrics post
       (MemoryPercentile metrics [PoolName ent, OS inst, Arch inst, Provider inst]
          (MaxMemUsagePct stats)
          (CPUPercentile metrics [PoolName ent, OS inst, Arch inst, Provider inst]
             (MaxCPUUsagePct stats) w), cl)
       = Some (world st', cl')"
    unfolding shape by (rule replay_at_Observe)
  with e shape show "\<exists>ent inst pre post w cl cl'.
                 EvFind ctx (StageRuntimeID r) (Some ent) None \<in> set (new_events st st')
                 \<and> EvGetInstanceByStageID ctx (PoolName ent) (StageRuntimeID r) (Some inst) None
                     \<in> set (new_events st st')
                 \<and> filter is_ObserveCPU (new_events st st')
                     = [EvObserveCPU [PoolName ent, OS inst, Arch inst, Provider inst]
                          (MaxCPUUsagePct stats)]
                 \<and> filter is_ObserveMemory (new_events st st')
                     = [EvObserveMemory [PoolName ent, OS inst, Arch inst, Provider inst]
                          (MaxMemUsagePct stats)]
                 \<and> new_events st st'
                     = pre @ EvObserveCPU [PoolName ent, OS inst, Arch inst, Provider inst]
                               (MaxCPUUsagePct stats)
                           # EvObserveMemory [PoolName ent, OS inst, Arch inst, Provider inst]
                               (MaxMemUsagePct stats)
                           # post
                 \<and> replay pk s poolManager metrics pre (world st, None) = Some (w, cl)
                 \<and> replay pk s poolManager metrics post
                     (MemoryPercentile metrics [PoolName ent, OS inst, Arch inst, Provider inst]
                        (MaxMemUsagePct stats)
                        (CPUPercentile metrics [PoolName ent, OS inst, Arch inst, Provider inst]
                           (MaxCPUUsagePct stats) w), cl)
                     = Some (world st', cl')"
    by blast
next
  assume "\<forall>c req resp derr. EvClientDestroy c req resp derr \<in> set (new_events st st') \<longrightarrow>
                resp = None \<or> OSStats (the resp) = None"
  from mp [OF conjunct2 [OF stats_events [OF run]] this]
  show "filter is_ObserveCPU (new_events st st') = []"
    and "filter is_ObserveMemory (new_events st st') = []"
    by simp_all
qed

theorem stats_observed_once_with_labels_witness:
  "EvClientDestroy Background
     \<lparr>LogDrone = False, DestroyRequest_LogKey = ''key'',
      LiteEnginePath = ''/var/log/lite-engine/linux''\<rparr>
     (Some \<lparr>OSStats = Some stub_stats\<rparr>) (Some (Err ''deadline exceeded''))
     \<in> set (new_events rec_state
              (snd (rec_run Background
                      (Inr (rec_client (Some \<lparr>OSStats = Some stub_stats\<rparr>,
                                        Some (Err ''deadline exceeded'')))) None)))
   \<and> filter (\<lambda>ev. is_ObserveCPU ev \<or> is_ObserveMemory ev)
       (world (snd (rec_run Background
                      (Inr (rec_client (Some \<lparr>OSStats = Some stub_stats\<rparr>,
                                        Some (Err ''deadline exceeded'')))) None)))
     = [EvObserveCPU [''linux-pool'', ''linux'', ''amd64'', ''amazon''] (Finite 95),
        EvObserveMemory [''linux-pool'', ''linux'', ''amd64'', ''amazon''] (Finite 60)]
   \<and> filter is_ObserveCPU
       (new_events rec_state
          (snd (rec_run Background
                  (Inr (rec_client (Some \<lparr>OSStats = Some stub_stats\<rparr>,
                                    Some (Err ''deadline exceeded'')))) None)))
     = [EvObserveCPU [''linux-pool'', ''linux'', ''amd64'', ''amazon''] (Finite 95)]
   \<and> filter is_ObserveMemory
       (new_events rec_state
          (snd (rec_run Background
                  (Inr (rec_client (Some \<lparr>OSStats = Some stub_stats\<rparr>,
                                    Some (Err ''deadline exceeded'')))) None)))
     = [EvObserveMemory [''linux-pool'', ''linux'', ''amd64'', ''amazon''] (Finite 60)]
   \<and> EvClientDestroy Background
       \<lparr>LogDrone = False, DestroyRequest_LogKey = ''key'',
        LiteEnginePath = ''/var/log/lite-engine/linux''\<rparr> None (Some (Err ''agent unreachable''))
       \<in> set (new_events rec_state
                (snd (rec_run Background
                        (Inr (rec_client (None, Some (Err ''agent unreachable'')))) None)))
   \<and> filter (\<lambda>ev. is_ObserveCPU ev \<or> is_ObserveMemory ev)
       (world (snd (rec_run Background
                      (Inr (rec_client (None, Some (Err ''agent unreachable'')))) None)))
     = []
   \<and> filter is_ObserveCPU
       (new_events rec_state
          (snd (rec_run Background
                  (Inr (rec_client (None, Some (Err ''agent unreachable'')))) None)))
     = []
   \<and> filter is_ObserveMemory
       (new_events rec_state
          (snd (rec_run Background
                  (Inr (rec_client (None, Some (Err ''agent unreachable'')))) None)))
     = []"
proof -
  define run1 where
    "run1 = rec_run Background
              (Inr (rec_client (Some \<lparr>OSStats = Some stub_stats\<rparr>,
                                Some (Err ''deadline exceeded'')))) None"
  define run2 where
    "run2 = rec_run Background (Inr (rec_client (None, Some (Err ''agent unreachable'')))) None"
  have r1: "handleDestroy
       (rec_packages (Inr (rec_client (Some \<lparr>OSStats = Some stub_stats\<rparr>,
                                       Some (Err ''deadline exceeded'')))))
       Background stub_request (rec_store (Some stub_owner, None) None) stub_env
       (rec_manager (Some stub_instance, None) None) rec_metrics 0 rec_state
       = ((fst (fst run1), snd (fst run1)), snd run1)"
    by (simp add: run1_def rec_run_def)
  have r2: "handleDestroy
       (rec_packages (Inr (rec_client (None, Some (Err ''agent unreachable'')))))
       Background stub_request (rec_store (Some stub_owner, None) None) stub_env
       (rec_manager (Some stub_instance, None) None) rec_metrics 0 rec_state
       = ((fst (fst run2), snd (fst run2)), snd run2)"
    by (simp add: run2_def rec_run_def)
  have called: "EvClientDestroy Background
     \<lparr>LogDrone = False, DestroyRequest_LogKey = ''key'',
      LiteEnginePath = ''/var/log/lite-engine/linux''\<rparr>
     (Some \<lparr>OSStats = Some stub_stats\<rparr>) (Some (Err ''deadline exceeded''))
     \<in> set (new_events rec_state (snd run1))"
    by (simp add: run1_def rec_defs eval_defs)
  have received1: "filter (\<lambda>ev. is_ObserveCPU ev \<or> is_ObserveMemory ev) (world (snd run1))
     = [EvObserveCPU [''linux-pool'', ''linux'', ''amd64'', ''amazon''] (Finite 95),
        EvObserveMemory [''linux-pool'', ''linux'', ''amd64'', ''amazon''] (Finite 60)]"
    by (simp add: run1_def rec_defs eval_defs)
  have found: "EvFind Background ''stage-1'' (Some ent) None
                 \<in> set (new_events rec_state (snd run1)) \<Longrightarrow> ent = stub_owner" for ent
    by (simp add: run1_def rec_defs eval_defs)
  have looked: "EvGetInstanceByStageID Background p ''stage-1'' (Some inst) None
                 \<in> set (new_events rec_state (snd run1)) \<Longrightarrow> inst = stub_instance" for p inst
    by (simp add: run1_def rec_defs eval_defs)
  have nil_response: "EvClientDestroy Background
       \<lparr>LogDrone = False, DestroyRequest_LogKey = ''key'',
        LiteEnginePath = ''/var/log/lite-engine/linux''\<rparr> None (Some (Err ''agent unreachable''))
       \<in> set (new_events rec_state (snd run2))"
    by (simp add: run2_def rec_defs eval_defs)
  have no_stats: "\<forall>c req resp derr.
         EvClientDestroy c req resp derr \<in> set (new_events rec_state (snd run2))
         \<longrightarrow> resp = None \<or> OSStats (the resp) = None"
    by (simp add: run2_def rec_defs eval_defs)
  have received2: "filter (\<lambda>ev. is_ObserveCPU ev \<or> is_ObserveMemory ev) (world (snd run2)) = []"
    by (simp add: run2_def rec_defs eval_defs)
  have os: "OSStats \<lparr>OSStats = Some stub_stats\<rparr> = Some stub_stats" by simp
  note thm1 = stats_observed_once_with_labels [OF r1]
  from thm1 [THEN conjunct2, THEN conjunct1, rule_format, OF conjI [OF called os]]
  obtain ent inst where
    e: "EvFind Background (StageRuntimeID stub_request) (Some ent) None
          \<in> set (new_events rec_state (snd run1))"
       "EvGetInstanceByStageID Background (PoolName ent) (StageRuntimeID stub_request)
          (Some inst) None \<in> set (new_events rec_state (snd run1))"
       "filter is_ObserveCPU (new_events rec_state (snd run1))
          = [EvObserveCPU [PoolName ent, OS inst, Arch inst, Provider inst]
               (MaxCPUUsagePct stub_stats)]"
       "filter is_ObserveMemory (new_events rec_state (snd run1))
          = [EvObserveMemory [PoolName ent, OS inst, Arch inst, Provider inst]
               (MaxMemUsagePct stub_stats)]"
    by blast
  from e(1) found have "ent = stub_owner" by (simp add: stub_request_def)
  moreover from e(2) looked have "inst = stub_instance" by (simp add: stub_request_def)
  ultimately have observed:
    "filter is_ObserveCPU (new_events rec_state (snd run1))
       = [EvObserveCPU [''linux-pool'', ''linux'', ''amd64'', ''amazon''] (Finite 95)]"
    "filter is_ObserveMemory (new_events rec_state (snd run1))
       = [EvObserveMemory [''linux-pool'', ''linux'', ''amd64'', ''amazon''] (Finite 60)]"
    using e(3,4) by (simp_all add: stub_owner_def stub_instance_def stub_stats_def)
  note thm2 = stats_observed_once_with_labels [OF r2]
  have unobserved:
    "filter is_ObserveCPU (new_events rec_state (snd run2)) = []
     \<and> filter is_ObserveMemory (new_events rec_state (snd run2)) = []"
    by (rule mp [OF conjunct2 [OF conjunct2 [OF thm2]] no_stats])
  from called received1 observed nil_response received2 unobserved show ?thesis
    unfolding run1_def [symmetric] run2_def [symmetric] by (intro conjI) simp_all
qed

subsection \<open>The retry loop\<close>

text \<open>
  A pass of the loop ends in \<^verbatim>\<open>continue\<close> exactly when its attempt failed and the backoff
  did not return \<^verbatim>\<open>Stop\<close>; the next pass starts after the error line and the sleep, with
  the counter one higher. So \<open>after_retries \<dots> n v = Some v'\<close> says that \<open>n\<close> attempts in
  a row failed and were retried.
\<close>

lemma loop_body_continue:
  assumes "loop_body pk ctx r s env poolManager metrics (cnt, b, st) = Inr v'"
  shows "\<exists>duration b' st1 inst e st2.
           call_NextBackOff pk b st = ((duration, b'), st1)
           \<and> handleDestroy pk ctx r s env poolManager metrics cnt st1 = ((inst, Some e), st2)
           \<and> duration \<noteq> backoff_Stop
           \<and> v' = (cnt + 1, b',
                    call_Sleep pk duration
                      (Errorln
                        (WithField ''stage_runtime_id'' (LStr (StageRuntimeID r))
                          (WithField ''retry_count'' (LInt cnt) (WithError e [])))
                        ''could not destroy VM'' st2))"
  using assms
  by (auto simp add: loop_body_def Let_def split: prod.splits if_splits)

lemma after_retries_count:
  "after_retries pk ctx r s env poolManager metrics n (cnt, b, st) = Some (cnt', b', st')
   \<Longrightarrow> cnt' = cnt + int n"
proof (induction n arbitrary: cnt b st)
  case 0
  then show ?case by simp
next
  case (Suc n)
  then obtain v1 where
    step: "loop_body pk ctx r s env poolManager metrics (cnt, b, st) = Inr v1"
    and rest: "after_retries pk ctx r s env poolManager metrics n v1 = Some (cnt', b', st')"
    by (auto split: sum.splits)
  from loop_body_continue [OF step] obtain b1 st1 where "v1 = (cnt + 1, b1, st1)"
    by blast
  with rest Suc.IH [of "cnt + 1" b1 st1] show ?case by simp
qed

lemma retry_loop_skip:
  "after_retries pk ctx r s env poolManager metrics n v = Some v'
   \<Longrightarrow> retry_loop pk ctx r s env poolManager metrics v
       = retry_loop pk ctx r s env poolManager metrics v'"
proof (induction n arbitrary: v)
  case 0
  then show ?case by simp
next
  case (Suc n)
  then obtain v1 where
    step: "loop_body pk ctx r s env poolManager metrics v = Inr v1"
    and rest: "after_retries pk ctx r s env poolManager metrics n v1 = Some v'"
    by (auto split: sum.splits)
  have "retry_loop pk ctx r s env poolManager metrics v
          = retry_loop pk ctx r s env poolManager metrics v1"
    by (subst retry_loop.simps) (simp add: step)
  with Suc.IH [OF rest] show ?case by simp
qed

text \<open>
  C8. A run for a request with a stage id, in which \<open>n\<close> passes fail and are retried and
  then an attempt returns no error: \<^verbatim>\<open>HandleDestroy\<close> returns nil, and the state it
  returns in is the state \<open>st2\<close> at the end of that attempt: nothing is called, logged or
  waited for after it.
\<close>

theorem first_success_returns_nil_at_once:
  assumes nonempty: "StageRuntimeID r \<noteq> ''''"
    and start: "createBackoff pk destroyTimeout st = (b0, st0)"
    and retried: "after_retries pk ctx r s env poolManager metrics n (0, b0, st0) = Some (cnt, b, stn)"
    and backoff: "call_NextBackOff pk b stn = ((duration, b'), st1)"
    and success: "handleDestroy pk ctx r s env poolManager metrics cnt st1 = ((inst, None), st2)"
  shows "HandleDestroy pk ctx r s env poolManager metrics st = Some (None, st2)"
proof -
  have "HandleDestroy pk ctx r s env poolManager metrics st
          = retry_loop pk ctx r s env poolManager metrics (0, b0, st0)"
    using nonempty by (simp add: HandleDestroy_def start)
  also have "\<dots> = retry_loop pk ctx r s env poolManager metrics (cnt, b, stn)"
    by (rule retry_loop_skip [OF retried])
  also have "\<dots> = Some (None, st2)"
    by (subst retry_loop.simps) (simp add: loop_body_def backoff success)
  finally show ?thesis .
qed

theorem first_success_returns_nil_at_once_witness:
  "HandleDestroy (stub_packages (Inl (Err ''no route to host'')) 5) (CallerContext 1 False)
     stub_request stub_store_late stub_env stub_manager_ok stub_metrics stub_state
   = Some (None,
           snd (handleDestroy (stub_packages (Inl (Err ''no route to host'')) 5)
                  (CallerContext 1 False) stub_request stub_store_late stub_env stub_manager_ok
                  stub_metrics 1
                  \<lparr>world = 1,
                   trace = [EvNewExponentialBackOff, EvNextBackOff 500000000,
                            EvFind (CallerContext 1 False) ''stage-1'' None (Some (Err ''not yet'')),
                            EvLog ErrorLevel ''could not destroy VM''
                              (WithField ''stage_runtime_id'' (LStr ''stage-1'')
                                (WithField ''retry_count'' (LInt 0)
                                  (WithError
                                    (Wrapped (Err ''not yet'')
                                      ''failed to find stage owner entity for stage: stage-1'')
                                    []))),
                            EvSleep 500000000, EvNextBackOff 500000000]\<rparr>))
   \<and> fst (handleDestroy (stub_packages (Inl (Err ''no route to host'')) 5)
                  (CallerContext 1 False) stub_request stub_store_late stub_env stub_manager_ok
                  stub_metrics 1
                  \<lparr>world = 1,
                   trace = [EvNewExponentialBackOff, EvNextBackOff 500000000,
                            EvFind (CallerContext 1 False) ''stage-1'' None (Some (Err ''not yet'')),
                            EvLog ErrorLevel ''could not destroy VM''
                              (WithField ''stage_runtime_id'' (LStr ''stage-1'')
                                (WithField ''retry_count'' (LInt 0)
                                  (WithError
                                    (Wrapped (Err ''not yet'')
                                      ''failed to find stage owner entity for stage: stage-1'')
                                    []))),
                            EvSleep 500000000, EvNextBackOff 500000000]\<rparr>)
       = (Some stub_instance, None)"
proof -
  let ?pk = "stub_packages (Inl (Err ''no route to host'')) 5 :: (nat, unit, nat) packages"
  let ?ctx = "CallerContext 1 False"
  let ?st0 = "\<lparr>world = 0, trace = [EvNewExponentialBackOff]\<rparr> :: nat state"
  let ?stn = "\<lparr>world = 1,
                   trace = [EvNewExponentialBackOff, EvNextBackOff 500000000,
                            EvFind (CallerContext 1 False) ''stage-1'' None (Some (Err ''not yet'')),
                            EvLog ErrorLevel ''could not destroy VM''
                              (WithField ''stage_runtime_id'' (LStr ''stage-1'')
                                (WithField ''retry_count'' (LInt 0)
                                  (WithError
                                    (Wrapped (Err ''not yet'')
                                      ''failed to find stage owner entity for stage: stage-1'')
                                    []))),
                            EvSleep 500000000]\<rparr> :: nat state"
  let ?st1 = "\<lparr>world = 1,
                   trace = [EvNewExponentialBackOff, EvNextBackOff 500000000,
                            EvFind (CallerContext 1 False) ''stage-1'' None (Some (Err ''not yet'')),
                            EvLog ErrorLevel ''could not destroy VM''
                              (WithField ''stage_runtime_id'' (LStr ''stage-1'')
                                (WithField ''retry_count'' (LInt 0)
                                  (WithError
                                    (Wrapped (Err ''not yet'')
                                      ''failed to find stage owner entity for stage: stage-1'')
                                    []))),
                            EvSleep 500000000, EvNextBackOff 500000000]\<rparr> :: nat state"
  let ?h = "handleDestroy ?pk ?ctx stub_request stub_store_late stub_env stub_manager_ok
              stub_metrics 1 ?st1"
  have nonempty: "StageRuntimeID stub_request \<noteq> ''''"
    by (simp add: stub_request_def)
  have start: "createBackoff ?pk destroyTimeout stub_state = (0, ?st0)"
    by (simp add: createBackoff_def stub_defs emit_def)
  have retried: "after_retries ?pk ?ctx stub_request stub_store_late stub_env stub_manager_ok
                   stub_metrics 1 (0, 0, ?st0) = Some (1, 1, ?stn)"
    by (simp add: loop_eval_defs eval_defs)
  have backoff: "call_NextBackOff ?pk 1 ?stn = ((500000000, 2), ?st1)"
    by (simp add: loop_eval_defs eval_defs)
  have success: "?h = ((Some stub_instance, None), snd ?h)"
    by (simp add: eval_defs)
  from first_success_returns_nil_at_once [OF nonempty start retried backoff success] success
  show ?thesis by (simp add: prod_eq_iff)
qed

text \<open>
  C5. For a request whose stage id is empty \<^verbatim>\<open>HandleDestroy\<close> returns the bad-request
  error at once, in the state it was called in: the world is unchanged and the log has no
  new event, so there was no call of the store, the pool manager, the client, the metrics
  or the registry, no backoff and no attempt.
\<close>

theorem empty_stage_id_is_bad_request_without_effects:
  assumes "StageRuntimeID r = ''''"
  shows "HandleDestroy pk ctx r s env poolManager metrics st =
           Some (Some (BadRequestError
                         ''mandatory field 'stage_runtime_id' in the request body is empty''), st)
         \<and> new_events st st = []"
  using assms by (simp add: HandleDestroy_def NewBadRequestError_def new_events_def)

theorem empty_stage_id_is_bad_request_without_effects_witness:
  "StageRuntimeID (stub_request\<lparr>StageRuntimeID := ''''\<rparr>) = ''''
   \<and> HandleDestroy (stub_packages (Inl (Err ''no route to host'')) 5) Background
       (stub_request\<lparr>StageRuntimeID := ''''\<rparr>) stub_store_ok stub_env stub_manager_ok
       stub_metrics stub_state
     = Some (Some (BadRequestError
                     ''mandatory field 'stage_runtime_id' in the request body is empty''),
             stub_state)"
  using empty_stage_id_is_bad_request_without_effects
          [of "stub_request\<lparr>StageRuntimeID := ''''\<rparr>"
              "stub_packages (Inl (Err ''no route to host'')) 5" Background stub_store_ok
              stub_env stub_manager_ok stub_metrics stub_state]
  by simp

lemma loop_body_retry:
  assumes "call_NextBackOff pk b st = ((duration, b'), st1)"
    and "handleDestroy pk ctx r s env poolManager metrics cnt st1 = ((inst, Some e), st2)"
    and "duration \<noteq> backoff_Stop"
  shows "loop_body pk ctx r s env poolManager metrics (cnt, b, st)
         = Inr (cnt + 1, b',
                call_Sleep pk duration
                  (Errorln
                    (WithField ''stage_runtime_id'' (LStr (StageRuntimeID r))
                      (WithField ''retry_count'' (LInt cnt) (WithError e [])))
                    ''could not destroy VM'' st2))"
  using assms by (simp add: loop_body_def Let_def)

lemma after_retries_failed_attempts:
  "after_retries pk ctx r s env poolManager metrics n v
   = failed_attempts pk ctx r s env poolManager metrics n v"
proof (induction n arbitrary: v)
  case 0
  show ?case by simp
next
  case (Suc n)
  obtain cnt b st where v: "v = (cnt, b, st)" by (cases v)
  obtain duration b' st1 where nb: "call_NextBackOff pk b st = ((duration, b'), st1)"
    by (cases "call_NextBackOff pk b st") auto
  obtain inst err st2 where
    h: "handleDestroy pk ctx r s env poolManager metrics cnt st1 = ((inst, err), st2)"
    by (cases "handleDestroy pk ctx r s env poolManager metrics cnt st1") auto
  show ?case
  proof (cases err)
    case None
    then show ?thesis by (simp add: v nb h loop_body_def)
  next
    case (Some e)
    show ?thesis
    proof (cases "duration = backoff_Stop")
      case True
      then show ?thesis by (simp add: v nb h Some loop_body_def Let_def)
    next
      case False
      from loop_body_retry [OF nb h [unfolded Some] False] Suc.IH
      show ?thesis by (simp add: v nb h Some False)
    qed
  qed
qed

text \<open>
  C4. A run for a request with a stage id in which \<open>n\<close> attempts in a row return an
  error while the backoff returns a duration other than \<^verbatim>\<open>Stop\<close>, and then the backoff
  returns \<^verbatim>\<open>Stop\<close> and the next attempt returns the error \<open>e\<close>: \<^verbatim>\<open>HandleDestroy\<close>
  returns, and what it returns is \<open>e\<close>, the error of this last attempt (number \<open>n\<close>,
  counted from 0), after logging it; the errors of the earlier attempts are not returned.
  The condition is on the attempts' results and the backoff's durations
  (\<open>failed_attempts\<close>); that the loop goes on after each such attempt is proved
  (\<open>loop_body_retry\<close>, \<open>after_retries_failed_attempts\<close>), not assumed.
\<close>

theorem exhaustion_returns_last_error:
  assumes nonempty: "StageRuntimeID r \<noteq> ''''"
    and start: "createBackoff pk destroyTimeout st = (b0, st0)"
    and failed: "failed_attempts pk ctx r s env poolManager metrics n (0, b0, st0)
                   = Some (cnt, b, stn)"
    and stop: "call_NextBackOff pk b stn = ((backoff_Stop, b'), st1)"
    and last: "handleDestroy pk ctx r s env poolManager metrics cnt st1 = ((inst, Some e), st2)"
  shows "HandleDestroy pk ctx r s env poolManager metrics st =
           Some (Some e,
                 Errorln
                   (WithField ''stage_runtime_id'' (LStr (StageRuntimeID r))
                     (WithField ''retry_count'' (LInt (int n)) (WithError e [])))
                   ''could not destroy VM'' st2)"
proof -
  from failed have retried:
    "after_retries pk ctx r s env poolManager metrics n (0, b0, st0) = Some (cnt, b, stn)"
    by (simp add: after_retries_failed_attempts)
  from after_retries_count [OF retried] have cnt: "cnt = int n" by simp
  have "HandleDestroy pk ctx r s env poolManager metrics st
          = retry_loop pk ctx r s env poolManager metrics (0, b0, st0)"
    using nonempty by (simp add: HandleDestroy_def start)
  also have "\<dots> = retry_loop pk ctx r s env poolManager metrics (cnt, b, stn)"
    by (rule retry_loop_skip [OF retried])
  also have "\<dots> = Some (Some e,
                 Errorln
                   (WithField ''stage_runtime_id'' (LStr (StageRuntimeID r))
                     (WithField ''retry_count'' (LInt cnt) (WithError e [])))
                   ''could not destroy VM'' st2)"
    by (subst retry_loop.simps) (simp add: loop_body_def stop last Let_def)
  finally show ?thesis unfolding cnt .
qed

theorem exhaustion_returns_last_error_witness:
  "map_option fst
     (HandleDestroy (stub_packages (Inl (Err ''no route to host'')) 2) (CallerContext 1 False)
        stub_request stub_store_never stub_env stub_manager_ok stub_metrics stub_state)
   = Some (Some (Wrapped (Err ''third'')
                   ''failed to find stage owner entity for stage: stage-1''))"
proof -
  let ?pk = "stub_packages (Inl (Err ''no route to host'')) 2 :: (nat, unit, nat) packages"
  let ?ctx = "CallerContext 1 False"
  let ?st0 = "\<lparr>world = 0, trace = [EvNewExponentialBackOff]\<rparr> :: nat state"
  define v where
    "v = the (failed_attempts ?pk ?ctx stub_request stub_store_never stub_env stub_manager_ok
                stub_metrics 2 (0, 0, ?st0))"
  define nb where "nb = call_NextBackOff ?pk (fst (snd v)) (snd (snd v))"
  define h where
    "h = handleDestroy ?pk ?ctx stub_request stub_store_never stub_env stub_manager_ok
           stub_metrics (fst v) (snd nb)"
  have nonempty: "StageRuntimeID stub_request \<noteq> ''''"
    by (simp add: stub_request_def)
  have start: "createBackoff ?pk destroyTimeout stub_state = (0, ?st0)"
    by (simp add: createBackoff_def stub_defs emit_def)
  have failed: "failed_attempts ?pk ?ctx stub_request stub_store_never stub_env stub_manager_ok
                   stub_metrics 2 (0, 0, ?st0) = Some (fst v, fst (snd v), snd (snd v))"
    unfolding v_def
    by (simp add: numeral_2_eq_2 loop_eval_defs eval_defs)
  have stop: "call_NextBackOff ?pk (fst (snd v)) (snd (snd v))
                = ((backoff_Stop, snd (fst nb)), snd nb)"
    unfolding nb_def v_def
    by (simp add: numeral_2_eq_2 loop_eval_defs eval_defs)
  have last: "handleDestroy ?pk ?ctx stub_request stub_store_never stub_env stub_manager_ok
                stub_metrics (fst v) (snd nb)
              = ((fst (fst h),
                  Some (Wrapped (Err ''third'')
                          ''failed to find stage owner entity for stage: stage-1'')), snd h)"
    unfolding h_def nb_def v_def
    by (simp add: numeral_2_eq_2 loop_eval_defs eval_defs)
  from exhaustion_returns_last_error [OF nonempty start failed stop last]
  show ?thesis by simp
qed

subsection \<open>A stage owner lookup that finds nothing\<close>

text \<open>
  When the store's \<^verbatim>\<open>Find\<close> returns an error, the attempt fails with that error wrapped,
  whatever entity came with it.
\<close>

lemma find_error_fails_attempt:
  assumes "Find s ctx (StageRuntimeID r) (world st) = ((entity, Some e), w)"
  shows "fst (handleDestroy pk ctx r s env poolManager metrics retryCount st)
         = (None, Some (Wrapped e (''failed to find stage owner entity for stage: ''
                                   @ StageRuntimeID r)))"
  using assms by (simp add: handleDestroy_def call_Find_def errors_Wrap_def)

text \<open>
  C1. The claim is that an attempt whose lookup returns an error or no record fails with
  a non-nil wrapped error, and never returns success without having terminated an
  instance. With a store whose \<^verbatim>\<open>Find\<close> returns a nil entity and a nil error, line 64
  wraps the nil error, which \<^verbatim>\<open>errors.Wrap\<close> returns as nil: the attempt returns a
  nil instance and a nil error after the lookup alone, and \<^verbatim>\<open>HandleDestroy\<close> returns
  nil after one pass, with no call of the pool manager in the log.
\<close>

theorem nil_entity_without_error_returns_success:
  "handleDestroy (stub_packages (Inl (Err ''no route to host'')) 5) Background stub_request
     stub_store_nil stub_env stub_manager_ok stub_metrics 0 stub_state
   = ((None, None), \<lparr>world = 0, trace = [EvFind Background ''stage-1'' None None]\<rparr>)
   \<and> HandleDestroy (stub_packages (Inl (Err ''no route to host'')) 5) Background stub_request
       stub_store_nil stub_env stub_manager_ok stub_metrics stub_state
     = Some (None, \<lparr>world = 0,
                    trace = [EvNewExponentialBackOff, EvNextBackOff 500000000,
                             EvFind Background ''stage-1'' None None]\<rparr>)"
proof (rule conjI)
  show "handleDestroy (stub_packages (Inl (Err ''no route to host'')) 5) Background stub_request
     stub_store_nil stub_env stub_manager_ok stub_metrics 0 stub_state
   = ((None, None), \<lparr>world = 0, trace = [EvFind Background ''stage-1'' None None]\<rparr>)"
    by (simp add: eval_defs)
next
  have "HandleDestroy (stub_packages (Inl (Err ''no route to host'')) 5) Background stub_request
       stub_store_nil stub_env stub_manager_ok stub_metrics stub_state
     = retry_loop (stub_packages (Inl (Err ''no route to host'')) 5) Background stub_request
         stub_store_nil stub_env stub_manager_ok stub_metrics
         (0, 0, \<lparr>world = 0, trace = [EvNewExponentialBackOff]\<rparr>)"
    by (simp add: HandleDestroy_def createBackoff_def stub_defs emit_def)
  also have "\<dots> = Some (None, \<lparr>world = 0,
                    trace = [EvNewExponentialBackOff, EvNextBackOff 500000000,
                             EvFind Background ''stage-1'' None None]\<rparr>)"
    by (subst retry_loop.simps) (simp add: loop_eval_defs eval_defs)
  finally show "HandleDestroy (stub_packages (Inl (Err ''no route to host'')) 5) Background
       stub_request stub_store_nil stub_env stub_manager_ok stub_metrics stub_state
     = Some (None, \<lparr>world = 0,
                    trace = [EvNewExponentialBackOff, EvNextBackOff 500000000,
                             EvFind Background ''stage-1'' None None]\<rparr>)" .
qed

theorem nil_entity_without_error_returns_success_witness:
  "snd (fst (handleDestroy (stub_packages (Inl (Err ''no route to host'')) 5) Background
               stub_request stub_store_nil stub_env stub_manager_ok stub_metrics 0 stub_state))
     = None
   \<and> map_option fst
        (HandleDestroy (stub_packages (Inl (Err ''no route to host'')) 5) Background
           stub_request stub_store_nil stub_env stub_manager_ok stub_metrics stub_state)
     = Some None
   \<and> filter is_ManagerDestroy
        (trace (snd (the
           (HandleDestroy (stub_packages (Inl (Err ''no route to host'')) 5) Background
              stub_request stub_store_nil stub_env stub_manager_ok stub_metrics stub_state))))
     = []"
  using nil_entity_without_error_returns_success by simp

end
